theory Spec2Isabelle
  imports Complex_Main
begin

section \<open>The postal client: requests, responses and their classification\<close>

text \<open>
  A shallow embedding of \<^verbatim>\<open>postal.go\<close> (the transport core and the messages service)
  and of the sending service. The functions of the package are translated one by one;
  what they call in Go's standard library (\<^verbatim>\<open>encoding/json\<close>, \<^verbatim>\<open>net/url\<close>,
  \<^verbatim>\<open>net/http\<close>) is either written out here from its documented behaviour or taken as
  a parameter, and each place says which.
\<close>

subsection \<open>Outcomes\<close>

text \<open>
  A Go call either returns or panics. A failed type assertion and a nil pointer
  dereference are run-time panics, which nothing in the package recovers.
\<close>

datatype 'a outcome = Panic string | Return 'a

subsection \<open>JSON values\<close>

text \<open>
  A number is kept as the literal the document holds: of integer syntax (no fraction, no
  exponent) or not, with its exact value. Go stores a number in a \<^verbatim>\<open>float64\<close> or
  \<^verbatim>\<open>float32\<close> after rounding; the rounding is not represented, the range check is:
  a literal at or beyond the midpoint between the largest finite value and the next power
  of two is out of range.
\<close>

datatype number = IntLit int | DecLit rat

fun number_value :: "number \<Rightarrow> rat" where
  "number_value (IntLit i) = of_int i"
| "number_value (DecLit q) = q"

definition fits_float64 :: "number \<Rightarrow> bool" where
  "fits_float64 n = (\<bar>number_value n\<bar> < 2 ^ 1024 - 2 ^ 970)"

definition fits_float32 :: "number \<Rightarrow> bool" where
  "fits_float32 n = (\<bar>number_value n\<bar> < 2 ^ 128 - 2 ^ 103)"

fun fits_int :: "number \<Rightarrow> bool" where
  "fits_int (IntLit i) = (- (2 ^ 63) \<le> i \<and> i < 2 ^ 63)"
| "fits_int (DecLit q) = False"

text \<open>
  The same datatype serves for a JSON document and for the dynamic value
  (\<^verbatim>\<open>interface{}\<close>) that \<^verbatim>\<open>encoding/json\<close> builds from it: \<^verbatim>\<open>nil\<close>, \<^verbatim>\<open>bool\<close>,
  \<^verbatim>\<open>float64\<close>, \<^verbatim>\<open>string\<close>, \<^verbatim>\<open>[]interface{}\<close> and \<^verbatim>\<open>map[string]interface{}\<close>.
  An object keeps its members in document order, duplicates included; read as a Go map,
  the last member of a name is the one that counts.
\<close>

datatype json =
    JNull
  | JBool bool
  | JNum number
  | JStr string
  | JArr "json list"
  | JObj "(string \<times> json) list"

fun kind :: "json \<Rightarrow> string" where
  "kind JNull = ''null''"
| "kind (JBool b) = ''bool''"
| "kind (JNum n) = ''number''"
| "kind (JStr s) = ''string''"
| "kind (JArr xs) = ''array''"
| "kind (JObj ms) = ''object''"

text \<open>The text of an \<^verbatim>\<open>UnmarshalTypeError\<close>, without the field path Go adds.\<close>

definition type_error :: "string \<Rightarrow> string \<Rightarrow> string" where
  "type_error what ty = ''json: cannot unmarshal '' @ what @ '' into Go value of type '' @ ty"

text \<open>
  Building an \<^verbatim>\<open>interface{}\<close> from a document fails only on a number out of
  \<^verbatim>\<open>float64\<close> range; the decoder saves the error and goes on, so the errors are
  listed in document order.
\<close>

fun range_errors :: "json \<Rightarrow> string list" where
  "range_errors (JNum n) = (if fits_float64 n then [] else [type_error ''number'' ''float64''])"
| "range_errors (JArr xs) = concat (map range_errors xs)"
| "range_errors (JObj ms) = concat (map (\<lambda>m. range_errors (snd m)) ms)"
| "range_errors j = []"

text \<open>Indexing a Go map built from an object: the zero value (nil) for a missing key.\<close>

definition map_index :: "(string \<times> json) list \<Rightarrow> string \<Rightarrow> json" where
  "map_index ms k = (case map_of (rev ms) k of None \<Rightarrow> JNull | Some v \<Rightarrow> v)"

subsection \<open>Matching member names to struct fields\<close>

text \<open>
  \<^verbatim>\<open>encoding/json\<close> looks a member name up among the field names exactly and, failing
  that, after case folding. Against a field name of ASCII letters the folding is:
  ASCII lower case to upper case, and the two runes that fold to ASCII, U+017F (long s,
  bytes C5 BF) and U+212A (Kelvin sign, bytes E2 84 AA). Strings are UTF-8 bytes.
\<close>

definition upper :: "char \<Rightarrow> char" where
  "upper c =
     (case map_of (zip ''abcdefghijklmnopqrstuvwxyz'' ''ABCDEFGHIJKLMNOPQRSTUVWXYZ'') c of
        None \<Rightarrow> c
      | Some u \<Rightarrow> u)"

fun foldName :: "string \<Rightarrow> string" where
  "foldName [] = []"
| "foldName (a # b # c # cs) =
     (if a = CHR 0xE2 \<and> b = CHR 0x84 \<and> c = CHR 0xAA then CHR ''K'' # foldName cs
      else if a = CHR 0xC5 \<and> b = CHR 0xBF then CHR ''S'' # foldName (c # cs)
      else upper a # foldName (b # c # cs))"
| "foldName (a # b # cs) =
     (if a = CHR 0xC5 \<and> b = CHR 0xBF then CHR ''S'' # foldName cs
      else upper a # foldName (b # cs))"
| "foldName (a # cs) = upper a # foldName cs"

subsection \<open>URLs, headers, requests and responses of the standard library\<close>

text \<open>
  \<^verbatim>\<open>url.URL\<close>, with the fields the client's calls read. \<^verbatim>\<open>User\<close> is a pointer.
  The escaped forms (\<^verbatim>\<open>RawPath\<close>, \<^verbatim>\<open>RawFragment\<close>) and \<^verbatim>\<open>OmitHost\<close> are left out.
\<close>

record URL =
  Scheme :: string
  Opaque :: string
  User :: "string option"
  Host :: string
  Path :: string
  ForceQuery :: bool
  RawQuery :: string
  Fragment :: string

text \<open>\<^verbatim>\<open>http.Header\<close> is a \<^verbatim>\<open>map[string][]string\<close> under canonical keys.\<close>

type_synonym Header = "string \<rightharpoonup> string list"

text \<open>
  The body of a request as \<^verbatim>\<open>NewRequest\<close> hands it over: none, or the bytes of the
  buffer.
\<close>

record Request =
  Method :: string
  URL :: URL
  Header :: Header
  Body :: "string option"

text \<open>
  The bytes of a response body, by what the JSON scanner makes of them: no bytes at all;
  bytes that do not begin with a JSON value (with the scanner's error text); or a JSON
  value, followed by nothing but white space (\<open>None\<close>) or by further bytes (with the
  error text \<^verbatim>\<open>json.Unmarshal\<close> reports for them; a \<^verbatim>\<open>json.Decoder\<close> stops after
  the value and does not look at them).
\<close>

datatype body_text = NoBytes | Malformed string | Doc json "string option"

text \<open>
  \<^verbatim>\<open>http.Response\<close>. \<open>Body_r\<close> is what \<^verbatim>\<open>io.ReadAll\<close> returns for the body: the
  bytes read and the read error, if any. \<open>Request\<close> is the request that was sent to
  obtain the response.
\<close>

record http_Response =
  StatusCode :: int
  Header_r :: Header
  Body_r :: "body_text \<times> string option"
  ContentLength :: int
  Request :: Request

definition io_ReadAll :: "body_text \<times> string option \<Rightarrow> body_text \<times> string option" where
  "io_ReadAll b = b"

subsection \<open>The package's constants and types\<close>

definition libraryVersion :: string where "libraryVersion = ''0.1.0''"
definition userAgent :: string where "userAgent = ''gopostal/'' @ libraryVersion"
definition mediaType :: string where "mediaType = ''application/json''"
definition statusSuccess :: string where "statusSuccess = ''success''"
definition statusParameterError :: string where "statusParameterError = ''parameter-error''"
definition statusError :: string where "statusError = ''error''"

text \<open>
  \<^verbatim>\<open>Response\<close> embeds \<^verbatim>\<open>*http.Response\<close> (here the field \<open>HTTP\<close>) and adds the four
  tagged fields of the envelope. \<^verbatim>\<open>Time\<close> is a \<^verbatim>\<open>float32\<close>, \<^verbatim>\<open>Flags\<close> a map that may
  be nil, \<^verbatim>\<open>Data\<close> a dynamic value.
\<close>

record Response =
  HTTP :: "http_Response option"
  Status :: string
  Time :: rat
  Flags :: "(string \<times> json) list option"
  Data :: json

text \<open>\<^verbatim>\<open>ErrorResponse\<close>; its fields \<^verbatim>\<open>Response\<close> and \<^verbatim>\<open>Data\<close> carry the suffix \<open>E\<close>.\<close>

record ErrorResponse =
  ResponseE :: http_Response
  DataE :: json

text \<open>
  A Go \<^verbatim>\<open>error\<close> value of the package's calls: an \<^verbatim>\<open>*ErrorResponse\<close>, or an error of
  the standard library, kept as its text.
\<close>

datatype error = APIError ErrorResponse | LibError string

subsection \<open>Decoding the envelope\<close>

text \<open>
  \<^verbatim>\<open>json.Unmarshal(data, &response)\<close> stores the members of a JSON object into the
  fields of a \<open>Response\<close>. A member name is resolved to a field by exact match first and
  by folded match next; among folded matches the fields promoted from the embedded
  \<^verbatim>\<open>*http.Response\<close> come first, the tagged fields after them.

  The fields promoted from \<^verbatim>\<open>http.Response\<close> belong to \<^verbatim>\<open>net/http\<close> and are a
  parameter: \<open>promoted name\<close> is \<open>None\<close> when the name resolves to none of them, and
  otherwise the function that gives, for the member's value, the type error that storing
  it raises, if any. What is stored there is not kept: the package reads
  \<^verbatim>\<open>Status\<close> and \<^verbatim>\<open>Data\<close> only.
\<close>

datatype field = F_status | F_time | F_flags | F_data | F_promoted "json \<Rightarrow> string option" | F_none

definition resolve :: "(string \<Rightarrow> (json \<Rightarrow> string option) option) \<Rightarrow> string \<Rightarrow> field" where
  "resolve promoted name =
     (if name = ''status'' then F_status
      else if name = ''time'' then F_time
      else if name = ''flags'' then F_flags
      else if name = ''data'' then F_data
      else case promoted name of
        Some f \<Rightarrow> F_promoted f
      | None \<Rightarrow>
          if foldName name = ''STATUS'' then F_status
          else if foldName name = ''TIME'' then F_time
          else if foldName name = ''FLAGS'' then F_flags
          else if foldName name = ''DATA'' then F_data
          else F_none)"

text \<open>
  Storing one value into one field yields the struct and the type errors raised. A JSON
  null leaves a string or a number as it is and sets a map or a dynamic value to nil;
  an object decoded into a map that is not nil adds its members to it.
\<close>

fun store :: "field \<Rightarrow> json \<Rightarrow> Response \<Rightarrow> Response \<times> string list" where
  "store F_status v r =
     (case v of
        JStr s \<Rightarrow> (r\<lparr>Status := s\<rparr>, [])
      | JNull \<Rightarrow> (r, [])
      | _ \<Rightarrow> (r, [type_error (kind v) ''string'']))"
| "store F_time v r =
     (case v of
        JNum n \<Rightarrow> (if fits_float32 n then (r\<lparr>Time := number_value n\<rparr>, [])
                   else (r, [type_error ''number'' ''float32'']))
      | JNull \<Rightarrow> (r, [])
      | _ \<Rightarrow> (r, [type_error (kind v) ''float32'']))"
| "store F_flags v r =
     (case v of
        JObj ms \<Rightarrow>
          (r\<lparr>Flags := Some ((case Flags r of None \<Rightarrow> [] | Some old \<Rightarrow> old) @ ms)\<rparr>,
           range_errors v)
      | JNull \<Rightarrow> (r\<lparr>Flags := None\<rparr>, [])
      | _ \<Rightarrow> (r, [type_error (kind v) ''map[string]interface {}'']))"
| "store F_data v r = (r\<lparr>Data := v\<rparr>, range_errors v)"
| "store (F_promoted f) v r = (r, (case f v of None \<Rightarrow> [] | Some e \<Rightarrow> [e]))"
| "store F_none v r = (r, [])"

text \<open>The members are stored in document order; the errors add up in that order.\<close>

fun store_members ::
  "(string \<Rightarrow> (json \<Rightarrow> string option) option) \<Rightarrow> (string \<times> json) list \<Rightarrow> Response
     \<Rightarrow> Response \<times> string list" where
  "store_members promoted [] r = (r, [])"
| "store_members promoted ((name, v) # ms) r =
     (let (r1, es1) = store (resolve promoted name) v r;
          (r2, es2) = store_members promoted ms r1
      in (r2, es1 @ es2))"

text \<open>
  The whole value: null leaves the struct as it is, an object is stored member by
  member and the first saved error, if any, is the result; anything else is a type error.
\<close>

definition decode_Response ::
  "(string \<Rightarrow> (json \<Rightarrow> string option) option) \<Rightarrow> json \<Rightarrow> Response \<Rightarrow> string + Response" where
  "decode_Response promoted j r =
     (case j of
        JNull \<Rightarrow> Inr r
      | JObj ms \<Rightarrow>
          (case store_members promoted ms r of
             (r', []) \<Rightarrow> Inr r'
           | (r', e # es) \<Rightarrow> Inl e)
      | _ \<Rightarrow> Inl (type_error (kind j) ''postal.Response''))"

text \<open>
  \<^verbatim>\<open>json.Unmarshal\<close> checks the syntax of all the bytes before it stores anything.
\<close>

definition json_Unmarshal ::
  "(string \<Rightarrow> (json \<Rightarrow> string option) option) \<Rightarrow> body_text \<Rightarrow> Response \<Rightarrow> string + Response" where
  "json_Unmarshal promoted data r =
     (case data of
        NoBytes \<Rightarrow> Inl ''unexpected end of JSON input''
      | Malformed e \<Rightarrow> Inl e
      | Doc j (Some e) \<Rightarrow> Inl e
      | Doc j None \<Rightarrow> decode_Response promoted j r)"

text \<open>The zero value of \<open>Response\<close>, as \<^verbatim>\<open>var response Response\<close> declares it.\<close>

definition zero_Response :: Response where
  "zero_Response = \<lparr>HTTP = None, Status = [], Time = 0, Flags = None, Data = JNull\<rparr>"

subsection \<open>Classifying a response\<close>

text \<open>
  \<^verbatim>\<open>CheckResponse\<close> returns \<^verbatim>\<open>(nil, errorResponse)\<close> or \<^verbatim>\<open>(data, nil)\<close>: here
  \<open>Inl\<close> of the error or \<open>Inr\<close> of the bytes. The type assertion
  \<^verbatim>\<open>response.Data.(map[string]interface{})\<close> is of the one-result form, which panics
  when \<^verbatim>\<open>Data\<close> holds anything but a map, nil included.
\<close>

definition CheckResponse ::
  "(string \<Rightarrow> (json \<Rightarrow> string option) option) \<Rightarrow> http_Response
     \<Rightarrow> (ErrorResponse + body_text) outcome" where
  "CheckResponse promoted r =
     (let errorResponse = \<lparr>ResponseE = r, DataE = JNull\<rparr>;
          (data, err) = io_ReadAll (Body_r r)
      in if err = None \<and> data \<noteq> NoBytes then
           (case json_Unmarshal promoted data zero_Response of
              Inl e \<Rightarrow> Return (Inl (errorResponse\<lparr>DataE := JStr e\<rparr>))
            | Inr response \<Rightarrow>
                if Status response \<noteq> statusSuccess then
                  (case Data response of
                     JObj m \<Rightarrow> Return (Inl (errorResponse\<lparr>DataE := map_index m ''message''\<rparr>))
                   | _ \<Rightarrow> Panic ''interface conversion: interface {} is not map[string]interface {}'')
                else Return (Inr data))
         else Return (Inr data))"

subsection \<open>Header keys and header maps\<close>

text \<open>
  \<^verbatim>\<open>textproto.CanonicalMIMEHeaderKey\<close>: a key with a byte that is not a token byte is
  returned as it is; otherwise the first letter and every letter after a hyphen become
  upper case and the other letters lower case.
\<close>

definition lower :: "char \<Rightarrow> char" where
  "lower c =
     (case map_of (zip ''ABCDEFGHIJKLMNOPQRSTUVWXYZ'' ''abcdefghijklmnopqrstuvwxyz'') c of
        None \<Rightarrow> c
      | Some l \<Rightarrow> l)"

definition isTokenByte :: "char \<Rightarrow> bool" where
  "isTokenByte c =
     (c \<in> set (''!#$%&*+-.^_`|~'' @ [CHR 0x27] @ ''0123456789''
               @ ''abcdefghijklmnopqrstuvwxyz'' @ ''ABCDEFGHIJKLMNOPQRSTUVWXYZ''))"

fun capitalise :: "bool \<Rightarrow> string \<Rightarrow> string" where
  "capitalise up [] = []"
| "capitalise up (c # cs) =
     (let c' = (if up then upper c else lower c) in c' # capitalise (c' = CHR ''-'') cs)"

definition CanonicalMIMEHeaderKey :: "string \<Rightarrow> string" where
  "CanonicalMIMEHeaderKey k = (if list_all isTokenByte k then capitalise True k else k)"

definition Header_Set :: "string \<Rightarrow> string \<Rightarrow> Header \<Rightarrow> Header" where
  "Header_Set k v h = h(CanonicalMIMEHeaderKey k \<mapsto> [v])"

definition Header_Add :: "string \<Rightarrow> string \<Rightarrow> Header \<Rightarrow> Header" where
  "Header_Add k v h =
     h(CanonicalMIMEHeaderKey k \<mapsto>
         (case h (CanonicalMIMEHeaderKey k) of None \<Rightarrow> [] | Some vs \<Rightarrow> vs) @ [v])"

definition Header_Get :: "string \<Rightarrow> Header \<Rightarrow> string" where
  "Header_Get k h =
     (case h (CanonicalMIMEHeaderKey k) of None \<Rightarrow> [] | Some [] \<Rightarrow> [] | Some (v # vs) \<Rightarrow> v)"

subsection \<open>Resolving a reference against a base URL\<close>

text \<open>
  \<^verbatim>\<open>resolvePath\<close> of \<^verbatim>\<open>net/url\<close>: the reference's path replaces the base's path when
  it begins with a slash and replaces its last segment otherwise; then the dot segments
  are removed, segment by segment.
\<close>

fun split_slash :: "string \<Rightarrow> string list" where
  "split_slash [] = [[]]"
| "split_slash (c # cs) =
     (if c = CHR ''/'' then [] # split_slash cs
      else (case split_slash cs of [] \<Rightarrow> [[c]] | s # ss \<Rightarrow> (c # s) # ss))"

definition up_to_last_slash :: "string \<Rightarrow> string option" where
  "up_to_last_slash s =
     (if CHR ''/'' \<in> set s then Some (rev (tl (dropWhile (\<lambda>c. c \<noteq> CHR ''/'') (rev s))))
      else None)"

fun path_step :: "string \<times> bool \<Rightarrow> string \<Rightarrow> string \<times> bool" where
  "path_step (dst, first) elem =
     (if elem = ''.'' then (dst, False)
      else if elem = ''..'' then
        (case up_to_last_slash (tl dst) of
           None \<Rightarrow> (''/'', True)
         | Some keep \<Rightarrow> (''/'' @ keep, first))
      else ((if first then dst else dst @ ''/'') @ elem, False))"

definition resolvePath :: "string \<Rightarrow> string \<Rightarrow> string" where
  "resolvePath base ref =
     (let full = (if ref = [] then base
                  else if hd ref \<noteq> CHR ''/'' then
                    (case up_to_last_slash base of None \<Rightarrow> [] | Some dir \<Rightarrow> dir @ ''/'') @ ref
                  else ref)
      in if full = [] then []
         else
           (let elems = split_slash full;
                dst = fst (foldl path_step (''/'', True) elems);
                r = (if last elems = ''.'' \<or> last elems = ''..'' then dst @ ''/'' else dst)
            in if length r > 1 \<and> r ! 1 = CHR ''/'' then tl r else r))"

text \<open>
  \<^verbatim>\<open>(*URL).ResolveReference\<close>, on a base that may be a nil pointer: the base is first
  read when the reference has no scheme, and that read panics on nil. Paths are taken to
  need no escaping, so that \<^verbatim>\<open>EscapedPath\<close> and \<^verbatim>\<open>setPath\<close> leave them as they are.
\<close>

definition ResolveReference :: "URL option \<Rightarrow> URL \<Rightarrow> URL outcome" where
  "ResolveReference u ref =
     (if Scheme ref \<noteq> [] then
        Return (ref\<lparr>Path := resolvePath (Path ref) []\<rparr>)
      else case u of
        None \<Rightarrow> Panic ''invalid memory address or nil pointer dereference''
      | Some b \<Rightarrow>
          (let url = ref\<lparr>Scheme := Scheme b\<rparr> in
           if Host ref \<noteq> [] \<or> User ref \<noteq> None then
             Return (url\<lparr>Path := resolvePath (Path ref) []\<rparr>)
           else if Opaque ref \<noteq> [] then
             Return (url\<lparr>User := None, Host := [], Path := []\<rparr>)
           else
             (let url = (if Path ref = [] \<and> \<not> ForceQuery ref \<and> RawQuery ref = [] then
                           (let url = url\<lparr>RawQuery := RawQuery b\<rparr> in
                            if Fragment ref = [] then url\<lparr>Fragment := Fragment b\<rparr> else url)
                         else url)
              in if Path ref = [] \<and> Opaque b \<noteq> [] then
                   Return (url\<lparr>Opaque := Opaque b, User := None, Host := [], Path := []\<rparr>)
                 else
                   Return (url\<lparr>Host := Host b, User := User b,
                               Path := resolvePath (Path b) (Path ref)\<rparr>))))"

subsection \<open>The standard library's functions taken as parameters\<close>

text \<open>
  \<open>url_Parse\<close> is \<^verbatim>\<open>url.Parse\<close> (the error text or the URL), \<open>url_String\<close> is
  \<^verbatim>\<open>(*URL).String\<close>, \<open>promoted\<close> is the decoding of the members that resolve to a
  field of the embedded \<^verbatim>\<open>http.Response\<close> (see above), and \<open>json_Encode\<close> is
  \<^verbatim>\<open>json.NewEncoder(buf).Encode\<close> on the type of the request body: the error text or
  the bytes written.
\<close>

record 'b stdlib =
  url_Parse :: "string \<Rightarrow> string + URL"
  url_String :: "URL \<Rightarrow> string"
  promoted :: "string \<Rightarrow> (json \<Rightarrow> string option) option"
  json_Encode :: "'b \<Rightarrow> string + string"

text \<open>\<^verbatim>\<open>(*URL).Parse\<close>: parse the reference, then resolve it against the receiver.\<close>

definition URL_Parse :: "'b stdlib \<Rightarrow> URL option \<Rightarrow> string \<Rightarrow> (string + URL) outcome" where
  "URL_Parse L u ref =
     (case url_Parse L ref of
        Inl err \<Rightarrow> Return (Inl err)
      | Inr refURL \<Rightarrow>
          (case ResolveReference u refURL of
             Panic p \<Rightarrow> Panic p
           | Return url \<Rightarrow> Return (Inr url)))"

text \<open>
  \<^verbatim>\<open>http.NewRequest\<close>: an empty method means GET; the method must be a token; the URL
  text is parsed again and an empty port is dropped from the host; the header map is
  empty; a buffer without bytes gives the request no body.
\<close>

definition removeEmptyPort :: "string \<Rightarrow> string" where
  "removeEmptyPort host = (if host \<noteq> [] \<and> last host = CHR '':'' then butlast host else host)"

definition http_NewRequest ::
  "'b stdlib \<Rightarrow> string \<Rightarrow> string \<Rightarrow> string option \<Rightarrow> string + Request" where
  "http_NewRequest L method url body =
     (let method = (if method = [] then ''GET'' else method) in
      if \<not> list_all isTokenByte method then Inl (''net/http: invalid method '' @ method)
      else case url_Parse L url of
        Inl err \<Rightarrow> Inl err
      | Inr u \<Rightarrow>
          Inr \<lparr>Method = method, URL = u\<lparr>Host := removeEmptyPort (Host u)\<rparr>, Header = Map.empty,
               Body = (case body of None \<Rightarrow> None | Some buf \<Rightarrow> if buf = [] then None else Some buf)\<rparr>)"

subsection \<open>The client\<close>

text \<open>
  \<open>HTTPClient\<close> is the transport: what \<^verbatim>\<open>client.Do(req)\<close> returns for a request, the
  error text or the response. The extra headers are a Go map, which \<^verbatim>\<open>range\<close> visits
  in an order of its choosing: \<open>headers\<close> lists the entries in the order of the visit.
  The completion callback receives pointers to the request and the response; it is
  modelled by what it leaves of the response. The two service fields point back to the
  client and are not represented.
\<close>

record Client =
  HTTPClient :: "Request \<Rightarrow> string + http_Response"
  BaseURL :: "URL option"
  ApiKey :: string
  headers :: "(string \<times> string) list"
  UserAgent :: string
  onRequestCompleted :: "(Request \<Rightarrow> http_Response \<Rightarrow> http_Response) option"

text \<open>
  \<^verbatim>\<open>NewClient\<close> drops the error of \<^verbatim>\<open>url.Parse\<close>, which returns a nil URL with it.
  \<open>DefaultClient\<close> stands for \<^verbatim>\<open>http.DefaultClient\<close>.
\<close>

definition NewClient ::
  "'b stdlib \<Rightarrow> (Request \<Rightarrow> string + http_Response) \<Rightarrow> string \<Rightarrow> string \<Rightarrow> Client" where
  "NewClient L DefaultClient baseURL akey =
     (let httpClient = DefaultClient;
          burl = (case url_Parse L baseURL of Inl err \<Rightarrow> None | Inr u \<Rightarrow> Some u)
      in \<lparr>HTTPClient = httpClient, BaseURL = burl, ApiKey = akey, headers = [],
          UserAgent = userAgent, onRequestCompleted = None\<rparr>)"

definition OnRequestCompleted ::
  "(Request \<Rightarrow> http_Response \<Rightarrow> http_Response) option \<Rightarrow> Client \<Rightarrow> Client" where
  "OnRequestCompleted rc c = c\<lparr>onRequestCompleted := rc\<rparr>"

definition newResponse :: "http_Response \<Rightarrow> Response" where
  "newResponse r = zero_Response\<lparr>HTTP := Some r\<rparr>"

definition SetBaseURL :: "'b stdlib \<Rightarrow> string \<Rightarrow> Client \<Rightarrow> Client" where
  "SetBaseURL L bu c =
     (let u = (case url_Parse L bu of Inl err \<Rightarrow> None | Inr u \<Rightarrow> Some u)
      in c\<lparr>BaseURL := u\<rparr>)"

definition SetApiKey :: "string \<Rightarrow> Client \<Rightarrow> Client" where
  "SetApiKey akey c = c\<lparr>ApiKey := akey\<rparr>"

subsection \<open>Building a request\<close>

text \<open>The loop over the extra headers of \<^verbatim>\<open>NewRequest\<close>.\<close>

fun add_headers :: "(string \<times> string) list \<Rightarrow> Header \<Rightarrow> Header" where
  "add_headers [] h = h"
| "add_headers ((k, v) # kvs) h = add_headers kvs (Header_Add k v h)"

text \<open>The part of \<^verbatim>\<open>NewRequest\<close> after the \<^verbatim>\<open>switch\<close>.\<close>

definition finish_request :: "Client \<Rightarrow> Request \<Rightarrow> Request" where
  "finish_request c req =
     (let h = add_headers (headers c) (Header req);
          h = Header_Set ''X-Server-API-Key'' (ApiKey c) h;
          h = Header_Set ''User-Agent'' (UserAgent c) h
      in req\<lparr>Header := h\<rparr>)"

text \<open>
  \<^verbatim>\<open>NewRequest\<close>. The body argument is an \<^verbatim>\<open>interface{}\<close>: \<open>None\<close> is nil.
\<close>

definition NewRequest ::
  "'b stdlib \<Rightarrow> Client \<Rightarrow> string \<Rightarrow> string \<Rightarrow> 'b option \<Rightarrow> (error + Request) outcome" where
  "NewRequest L c method urlStr body =
     (case URL_Parse L (BaseURL c) urlStr of
        Panic p \<Rightarrow> Panic p
      | Return (Inl err) \<Rightarrow> Return (Inl (LibError err))
      | Return (Inr u) \<Rightarrow>
          if method = ''GET'' \<or> method = ''HEAD'' \<or> method = ''OPTIONS'' then
            (case http_NewRequest L method (url_String L u) None of
               Inl err \<Rightarrow> Return (Inl (LibError err))
             | Inr req \<Rightarrow> Return (Inr (finish_request c req)))
          else
            (case (case body of None \<Rightarrow> Inr [] | Some b \<Rightarrow> json_Encode L b) of
               Inl err \<Rightarrow> Return (Inl (LibError err))
             | Inr buf \<Rightarrow>
                 (case http_NewRequest L method (url_String L u) (Some buf) of
                    Inl err \<Rightarrow> Return (Inl (LibError err))
                  | Inr req \<Rightarrow>
                      Return (Inr (finish_request c
                                    (req\<lparr>Header := Header_Set ''Content-Type'' mediaType (Header req)\<rparr>))))))"

subsection \<open>Sending a request and reading the response\<close>

text \<open>
  The decode target \<^verbatim>\<open>v\<close> is nil or a pointer to a value that \<^verbatim>\<open>encoding/json\<close>
  decodes into by its type: here the value pointed to, with the function that stores a
  JSON value into a value of that type and lists the type errors raised.

  \<^verbatim>\<open>json.NewDecoder(buf).Decode(v)\<close> reads one JSON value from the bytes: without bytes
  it reports \<^verbatim>\<open>io.EOF\<close>, and it reports the first type error after having stored what
  it could.
\<close>

type_synonym 'a target = "'a \<times> (json \<Rightarrow> 'a \<Rightarrow> 'a \<times> string list)"

definition Decoder_Decode :: "body_text \<Rightarrow> 'a target \<Rightarrow> 'a \<times> string option" where
  "Decoder_Decode buf v =
     (case buf of
        NoBytes \<Rightarrow> (fst v, Some ''EOF'')
      | Malformed e \<Rightarrow> (fst v, Some e)
      | Doc j rest \<Rightarrow>
          (case snd v j (fst v) of
             (x, []) \<Rightarrow> (x, None)
           | (x, e # es) \<Rightarrow> (x, Some e)))"

text \<open>
  \<^verbatim>\<open>DoRequestWithClient\<close> hands the request to the transport; the context is not
  represented.
\<close>

definition DoRequestWithClient ::
  "(Request \<Rightarrow> string + http_Response) \<Rightarrow> Request \<Rightarrow> string + http_Response" where
  "DoRequestWithClient client req = client req"

text \<open>
  \<^verbatim>\<open>Do\<close> returns the \<^verbatim>\<open>*Response\<close> and the error; the third component is the value
  that \<^verbatim>\<open>v\<close> points to when the call returns. The deferred function drains and closes
  the body and assigns only to the local \<^verbatim>\<open>err\<close>, which is not a named result: it
  changes nothing of what is returned and is not represented. \<open>completed\<close> is the
  call of the completion callback, when there is one.
\<close>

definition completed :: "Client \<Rightarrow> Request \<Rightarrow> http_Response \<Rightarrow> http_Response" where
  "completed c req resp =
     (case onRequestCompleted c of None \<Rightarrow> resp | Some rc \<Rightarrow> rc req resp)"

definition Do ::
  "'b stdlib \<Rightarrow> Client \<Rightarrow> Request \<Rightarrow> 'a target option
     \<Rightarrow> (Response option \<times> error option \<times> 'a option) outcome" where
  "Do L c req v =
     (case DoRequestWithClient (HTTPClient c) req of
        Inl err \<Rightarrow> Return (None, Some (LibError err), map_option fst v)
      | Inr resp0 \<Rightarrow>
          (let resp = completed c req resp0;
               response = newResponse resp
           in case CheckResponse (promoted L) resp of
                Panic p \<Rightarrow> Panic p
              | Return (Inl errorResponse) \<Rightarrow>
                  Return (Some response, Some (APIError errorResponse), map_option fst v)
              | Return (Inr body) \<Rightarrow>
                  (case (if StatusCode resp \<noteq> 204 then v else None) of
                     Some t \<Rightarrow>
                       (case Decoder_Decode body t of
                          (x, Some err) \<Rightarrow> Return (None, Some (LibError err), Some x)
                        | (x, None) \<Rightarrow> Return (Some response, None, Some x))
                   | None \<Rightarrow> Return (Some response, None, map_option fst v))))"

subsection \<open>Decoding the typed results\<close>

text \<open>The scalar fields: a JSON null leaves the field as it is.\<close>

definition store_string :: "json \<Rightarrow> string \<Rightarrow> string \<times> string list" where
  "store_string v cur =
     (case v of JStr s \<Rightarrow> (s, []) | JNull \<Rightarrow> (cur, [])
      | _ \<Rightarrow> (cur, [type_error (kind v) ''string'']))"

definition store_bool :: "json \<Rightarrow> bool \<Rightarrow> bool \<times> string list" where
  "store_bool v cur =
     (case v of JBool b \<Rightarrow> (b, []) | JNull \<Rightarrow> (cur, [])
      | _ \<Rightarrow> (cur, [type_error (kind v) ''bool'']))"

definition store_int :: "json \<Rightarrow> int \<Rightarrow> int \<times> string list" where
  "store_int v cur =
     (case v of
        JNum n \<Rightarrow> (case n of
                     IntLit i \<Rightarrow> if fits_int n then (i, []) else (cur, [type_error ''number'' ''int''])
                   | DecLit q \<Rightarrow> (cur, [type_error ''number'' ''int'']))
      | JNull \<Rightarrow> (cur, [])
      | _ \<Rightarrow> (cur, [type_error (kind v) ''int'']))"

definition store_float64 :: "json \<Rightarrow> rat \<Rightarrow> rat \<times> string list" where
  "store_float64 v cur =
     (case v of
        JNum n \<Rightarrow> if fits_float64 n then (number_value n, [])
                  else (cur, [type_error ''number'' ''float64''])
      | JNull \<Rightarrow> (cur, [])
      | _ \<Rightarrow> (cur, [type_error (kind v) ''float64'']))"

text \<open>
  A struct without embedded fields: the member name is looked up among the tags exactly,
  then folded, the first field in declaration order winning.
\<close>

definition find_field :: "string list \<Rightarrow> string \<Rightarrow> string option" where
  "find_field tags name =
     (if name \<in> set tags then Some name
      else List.find (\<lambda>t. foldName t = foldName name) tags)"

text \<open>
  \<^verbatim>\<open>MessageDeliveries\<close>; the fields \<^verbatim>\<open>Status\<close> and \<^verbatim>\<open>Time\<close> carry the suffix
  \<open>D\<close>. The two \<^verbatim>\<open>float64\<close> fields hold the exact value of the literal.
\<close>

record MessageDeliveries =
  ID :: int
  StatusD :: string
  Details :: string
  Output :: string
  SentWithSsl :: bool
  LogID :: string
  TimeD :: rat
  Timestamp :: rat

definition zero_MessageDeliveries :: MessageDeliveries where
  "zero_MessageDeliveries =
     \<lparr>ID = 0, StatusD = [], Details = [], Output = [], SentWithSsl = False, LogID = [],
      TimeD = 0, Timestamp = 0\<rparr>"

definition MessageDeliveries_tags :: "string list" where
  "MessageDeliveries_tags =
     [''id'', ''status'', ''details'', ''output'', ''sent_with_ssl'', ''log_id'', ''time'',
      ''timestamp'']"

definition store_delivery_field ::
  "string \<Rightarrow> json \<Rightarrow> MessageDeliveries \<Rightarrow> MessageDeliveries \<times> string list" where
  "store_delivery_field name v d =
     (case find_field MessageDeliveries_tags name of
        None \<Rightarrow> (d, [])
      | Some t \<Rightarrow>
          if t = ''id'' then (let (x, es) = store_int v (ID d) in (d\<lparr>ID := x\<rparr>, es))
          else if t = ''status'' then
            (let (x, es) = store_string v (StatusD d) in (d\<lparr>StatusD := x\<rparr>, es))
          else if t = ''details'' then
            (let (x, es) = store_string v (Details d) in (d\<lparr>Details := x\<rparr>, es))
          else if t = ''output'' then
            (let (x, es) = store_string v (Output d) in (d\<lparr>Output := x\<rparr>, es))
          else if t = ''sent_with_ssl'' then
            (let (x, es) = store_bool v (SentWithSsl d) in (d\<lparr>SentWithSsl := x\<rparr>, es))
          else if t = ''log_id'' then
            (let (x, es) = store_string v (LogID d) in (d\<lparr>LogID := x\<rparr>, es))
          else if t = ''time'' then
            (let (x, es) = store_float64 v (TimeD d) in (d\<lparr>TimeD := x\<rparr>, es))
          else
            (let (x, es) = store_float64 v (Timestamp d) in (d\<lparr>Timestamp := x\<rparr>, es)))"

fun store_delivery_members ::
  "(string \<times> json) list \<Rightarrow> MessageDeliveries \<Rightarrow> MessageDeliveries \<times> string list" where
  "store_delivery_members [] d = (d, [])"
| "store_delivery_members ((name, v) # ms) d =
     (let (d1, es1) = store_delivery_field name v d;
          (d2, es2) = store_delivery_members ms d1
      in (d2, es1 @ es2))"

definition decode_MessageDeliveries ::
  "json \<Rightarrow> MessageDeliveries \<Rightarrow> MessageDeliveries \<times> string list" where
  "decode_MessageDeliveries v d =
     (case v of
        JObj ms \<Rightarrow> store_delivery_members ms d
      | JNull \<Rightarrow> (d, [])
      | _ \<Rightarrow> (d, [type_error (kind v) ''postal.MessageDeliveries'']))"

text \<open>
  A JSON array decoded into a \<^verbatim>\<open>[]MessageDeliveries\<close>: the slice is reset and each
  element is decoded into a zero element.
\<close>

definition decode_deliveries ::
  "json \<Rightarrow> MessageDeliveries list \<Rightarrow> MessageDeliveries list \<times> string list" where
  "decode_deliveries v cur =
     (case v of
        JArr xs \<Rightarrow>
          (let rs = map (\<lambda>x. decode_MessageDeliveries x zero_MessageDeliveries) xs
           in (map fst rs, concat (map snd rs)))
      | JNull \<Rightarrow> ([], [])
      | _ \<Rightarrow> (cur, [type_error (kind v) ''[]postal.MessageDeliveries'']))"

subsection \<open>The root structs and the four operations\<close>

text \<open>
  Each root struct has one field, a pointer tagged \<^verbatim>\<open>data\<close>. A member that resolves
  to it sets the pointer to nil when its value is null; otherwise the pointer is
  allocated if it is nil and the value is decoded into what it points to. The type
  pointed to is given by its zero value and its decoder.
\<close>

type_synonym 'p payload = "'p \<times> (json \<Rightarrow> 'p \<Rightarrow> 'p \<times> string list)"

fun store_data :: "'p payload \<Rightarrow> (string \<times> json) list \<Rightarrow> 'p option \<Rightarrow> 'p option \<times> string list" where
  "store_data P [] x = (x, [])"
| "store_data P ((name, v) # ms) x =
     (if find_field [''data''] name = None then store_data P ms x
      else if v = JNull then store_data P ms None
      else
        (let (p, es1) = snd P v (case x of None \<Rightarrow> fst P | Some p \<Rightarrow> p);
             (x2, es2) = store_data P ms (Some p)
         in (x2, es1 @ es2)))"

definition decode_root :: "'p payload \<Rightarrow> string \<Rightarrow> json \<Rightarrow> 'p option \<Rightarrow> 'p option \<times> string list" where
  "decode_root P ty j x =
     (case j of
        JObj ms \<Rightarrow> store_data P ms x
      | JNull \<Rightarrow> (x, [])
      | _ \<Rightarrow> (x, [type_error (kind j) ty]))"

text \<open>
  \<^verbatim>\<open>MessageDetails\<close> and \<^verbatim>\<open>SendResponse\<close> are not spelled out: each is a type
  variable that comes with its payload. The request structs are type variables as well;
  an operation receives a pointer to one, which it passes on as the body whether the
  pointer is nil or not.
\<close>

record 'md messageRoot =
  Message :: "'md option"

record deliveriesRoot =
  Deliveries :: "MessageDeliveries list option"

record 'sr sendRoot =
  Hash :: "'sr option"

definition messageRoot_target :: "'md payload \<Rightarrow> 'md messageRoot target" where
  "messageRoot_target P =
     (\<lparr>Message = None\<rparr>,
      \<lambda>j rt. (let (x, es) = decode_root P ''postal.messageRoot'' j (Message rt)
                in (rt\<lparr>Message := x\<rparr>, es)))"

definition deliveriesRoot_target :: "deliveriesRoot target" where
  "deliveriesRoot_target =
     (\<lparr>Deliveries = None\<rparr>,
      \<lambda>j rt. (let (x, es) = decode_root ([], decode_deliveries) ''postal.deliveriesRoot'' j
                                  (Deliveries rt)
                in (rt\<lparr>Deliveries := x\<rparr>, es)))"

definition sendRoot_target :: "'sr payload \<Rightarrow> 'sr sendRoot target" where
  "sendRoot_target P =
     (\<lparr>Hash = None\<rparr>,
      \<lambda>j rt. (let (x, es) = decode_root P ''postal.sendRoot'' j (Hash rt)
                in (rt\<lparr>Hash := x\<rparr>, es)))"

definition messagesBasePath :: string where "messagesBasePath = ''/api/v1/messages''"
definition detailsPath :: string where "detailsPath = messagesBasePath @ ''/message''"
definition deliveriesPath :: string where "deliveriesPath = messagesBasePath @ ''/deliveries''"
definition sendBasePath :: string where "sendBasePath = ''/api/v1/send''"
definition sendPath :: string where "sendPath = sendBasePath @ ''/message''"
definition sendRawPath :: string where "sendRawPath = sendBasePath @ ''/raw''"

text \<open>
  The operations return the typed result, the \<^verbatim>\<open>*Response\<close> and the error.
\<close>

definition GetMessage ::
  "'rq stdlib \<Rightarrow> 'md payload \<Rightarrow> Client \<Rightarrow> 'rq
     \<Rightarrow> ('md option \<times> Response option \<times> error option) outcome" where
  "GetMessage L P client getRequest =
     (case NewRequest L client ''POST'' detailsPath (Some getRequest) of
        Panic p \<Rightarrow> Panic p
      | Return (Inl err) \<Rightarrow> Return (None, None, Some err)
      | Return (Inr req) \<Rightarrow>
          (case Do L client req (Some (messageRoot_target P)) of
             Panic p \<Rightarrow> Panic p
           | Return (resp, Some err, rt) \<Rightarrow> Return (None, resp, Some err)
           | Return (resp, None, rt) \<Rightarrow>
               Return (case rt of None \<Rightarrow> None | Some r \<Rightarrow> Message r, resp, None)))"

definition GetDeliveries ::
  "'rq stdlib \<Rightarrow> Client \<Rightarrow> 'rq
     \<Rightarrow> (MessageDeliveries list option \<times> Response option \<times> error option) outcome" where
  "GetDeliveries L client getRequest =
     (case NewRequest L client ''POST'' deliveriesPath (Some getRequest) of
        Panic p \<Rightarrow> Panic p
      | Return (Inl err) \<Rightarrow> Return (None, None, Some err)
      | Return (Inr req) \<Rightarrow>
          (case Do L client req (Some deliveriesRoot_target) of
             Panic p \<Rightarrow> Panic p
           | Return (resp, Some err, rt) \<Rightarrow> Return (None, resp, Some err)
           | Return (resp, None, rt) \<Rightarrow>
               Return (case rt of None \<Rightarrow> None | Some r \<Rightarrow> Deliveries r, resp, None)))"

definition Send ::
  "'rq stdlib \<Rightarrow> 'sr payload \<Rightarrow> Client \<Rightarrow> 'rq
     \<Rightarrow> ('sr option \<times> Response option \<times> error option) outcome" where
  "Send L P client sendRequest =
     (case NewRequest L client ''POST'' sendPath (Some sendRequest) of
        Panic p \<Rightarrow> Panic p
      | Return (Inl err) \<Rightarrow> Return (None, None, Some err)
      | Return (Inr req) \<Rightarrow>
          (case Do L client req (Some (sendRoot_target P)) of
             Panic p \<Rightarrow> Panic p
           | Return (resp, Some err, rt) \<Rightarrow> Return (None, resp, Some err)
           | Return (resp, None, rt) \<Rightarrow>
               Return (case rt of None \<Rightarrow> None | Some r \<Rightarrow> Hash r, resp, None)))"

definition SendRAW ::
  "'rq stdlib \<Rightarrow> 'sr payload \<Rightarrow> Client \<Rightarrow> 'rq
     \<Rightarrow> ('sr option \<times> Response option \<times> error option) outcome" where
  "SendRAW L P client sendRAWRequest =
     (case NewRequest L client ''POST'' sendRawPath (Some sendRAWRequest) of
        Panic p \<Rightarrow> Panic p
      | Return (Inl err) \<Rightarrow> Return (None, None, Some err)
      | Return (Inr req) \<Rightarrow>
          (case Do L client req (Some (sendRoot_target P)) of
             Panic p \<Rightarrow> Panic p
           | Return (resp, Some err, rt) \<Rightarrow> Return (None, resp, Some err)
           | Return (resp, None, rt) \<Rightarrow>
               Return (case rt of None \<Rightarrow> None | Some r \<Rightarrow> Hash r, resp, None)))"

subsection \<open>An example library and exchange\<close>

text \<open>
  Values at which the theorems below are instantiated: a reference that is a path and
  nothing else; an instance of the library parameters that reads \<^verbatim>\<open>https\<close> URLs
  without user, query or fragment and references that begin with a slash, and writes
  them back; a transport that answers every request with the same status code and body.
\<close>

abbreviation path_only :: "string \<Rightarrow> URL" where
  "path_only p \<equiv>
     \<lparr>Scheme = [], Opaque = [], User = None, Host = [], Path = p, ForceQuery = False,
      RawQuery = [], Fragment = []\<rparr>"

abbreviation https_url :: "string \<Rightarrow> string \<Rightarrow> URL" where
  "https_url host p \<equiv>
     \<lparr>Scheme = ''https'', Opaque = [], User = None, Host = host, Path = p, ForceQuery = False,
      RawQuery = [], Fragment = []\<rparr>"

abbreviation example_lib :: "unit stdlib" where
  "example_lib \<equiv>
     \<lparr>url_Parse = (\<lambda>s.
        if take 8 s = ''https://'' then
          Inr (https_url (takeWhile (\<lambda>c. c \<noteq> CHR ''/'') (drop 8 s))
                         (dropWhile (\<lambda>c. c \<noteq> CHR ''/'') (drop 8 s)))
        else if take 1 s = ''/'' then Inr (path_only s)
        else Inl ''parse error''),
      url_String = (\<lambda>u. if Scheme u = [] then Path u else Scheme u @ ''://'' @ Host u @ Path u),
      promoted = (\<lambda>name. None),
      json_Encode = (\<lambda>b. Inr ''{}'')\<rparr>"

abbreviation answering :: "int \<Rightarrow> body_text \<Rightarrow> Request \<Rightarrow> string + http_Response" where
  "answering code b \<equiv>
     (\<lambda>req. Inr \<lparr>StatusCode = code, Header_r = Map.empty, Body_r = (b, None),
                  ContentLength = - 1, Request = req\<rparr>)"

abbreviation example_client :: "(Request \<Rightarrow> string + http_Response) \<Rightarrow> Client" where
  "example_client transport \<equiv>
     NewClient example_lib transport ''https://postal.example.com'' ''key''"

subsection \<open>Exchanges\<close>

text \<open>
  An exchange of an operation: the request is built for the operation's path, the
  transport answers it, and the body of the response, after the completion callback, is
  read without error. A member of an envelope is its \<^verbatim>\<open>data\<close> when its name resolves
  to the field tagged \<^verbatim>\<open>data\<close> of a root struct.
\<close>

abbreviation exchange ::
  "'rq stdlib \<Rightarrow> Client \<Rightarrow> string \<Rightarrow> 'rq \<Rightarrow> Request \<Rightarrow> http_Response \<Rightarrow> body_text \<Rightarrow> bool" where
  "exchange L c path rq req resp0 b \<equiv>
     NewRequest L c ''POST'' path (Some rq) = Return (Inr req) \<and>
     HTTPClient c req = Inr resp0 \<and>
     Body_r (completed c req resp0) = (b, None)"

abbreviation is_data :: "string \<times> json \<Rightarrow> bool" where
  "is_data m \<equiv> find_field [''data''] (fst m) \<noteq> None"

abbreviation success_envelope :: "'rq stdlib \<Rightarrow> (string \<times> json) list \<Rightarrow> bool" where
  "success_envelope L ms \<equiv>
     (\<exists>env. decode_Response (promoted L) (JObj ms) zero_Response = Inr env \<and>
            Status env = statusSuccess)"

abbreviation example_request :: "string \<Rightarrow> Request" where
  "example_request p \<equiv>
     \<lparr>Method = ''POST'', URL = https_url ''postal.example.com'' p,
      Header = [''Content-Type'' \<mapsto> [''application/json''],
                ''X-Server-Api-Key'' \<mapsto> [''key''],
                ''User-Agent'' \<mapsto> [''gopostal/0.1.0'']],
      Body = Some ''{}''\<rparr>"

abbreviation example_response :: "int \<Rightarrow> body_text \<Rightarrow> string \<Rightarrow> http_Response" where
  "example_response code b p \<equiv>
     \<lparr>StatusCode = code, Header_r = Map.empty, Body_r = (b, None), ContentLength = - 1,
      Request = example_request p\<rparr>"

text \<open>
  The success payload of the deliveries scenario,
  \<^verbatim>\<open>{"status":"success","data":[{"id":1,"status":"Sent","details":"...","output":"250 OK","sent_with_ssl":true,"log_id":"abc","time":0.12,"timestamp":1700000000}]}\<close>,
  and the delivery it describes; the literal \<^verbatim>\<open>0.12\<close> is the fraction 3/25.
\<close>

abbreviation documented_array :: json where
  "documented_array \<equiv>
     JArr [JObj [(''id'', JNum (IntLit 1)), (''status'', JStr ''Sent''),
                 (''details'', JStr ''...''), (''output'', JStr ''250 OK''),
                 (''sent_with_ssl'', JBool True), (''log_id'', JStr ''abc''),
                 (''time'', JNum (DecLit (3 / 25))),
                 (''timestamp'', JNum (IntLit 1700000000))]]"

abbreviation documented_deliveries :: "(string \<times> json) list" where
  "documented_deliveries \<equiv> [(''status'', JStr ''success''), (''data'', documented_array)]"

abbreviation documented_delivery :: MessageDeliveries where
  "documented_delivery \<equiv>
     \<lparr>ID = 1, StatusD = ''Sent'', Details = ''...'', Output = ''250 OK'', SentWithSsl = True,
      LogID = ''abc'', TimeD = 3 / 25, Timestamp = 1700000000\<rparr>"

text \<open>
  A payload type for the examples: the \<^verbatim>\<open>message_id\<close> of an acknowledgement, a string,
  decoded from an object; and an acknowledgement envelope.
\<close>

abbreviation example_payload :: "string payload" where
  "example_payload \<equiv>
     ([], \<lambda>j x. case j of
                  JObj ms \<Rightarrow> store_string (map_index ms ''message_id'') x
                | _ \<Rightarrow> (x, [type_error (kind j) ''postal.SendResponse'']))"

abbreviation example_acknowledgement :: "(string \<times> json) list" where
  "example_acknowledgement \<equiv>
     [(''status'', JStr ''success''), (''time'', JNum (DecLit (1 / 50))), (''flags'', JObj []),
      (''data'', JObj [(''message_id'', JStr ''abc@postal''), (''messages'', JObj [])])]"

text \<open>The envelope of a failure, \<^verbatim>\<open>{"status":"error","data":{"message":"no such server"}}\<close>.\<close>

abbreviation example_failure :: "(string \<times> json) list" where
  "example_failure \<equiv>
     [(''status'', JStr ''error''), (''data'', JObj [(''message'', JStr ''no such server'')])]"

section \<open>Properties\<close>

subsection \<open>Classification\<close>

lemma CheckResponse_unread:
  "snd (Body_r r) \<noteq> None \<or> fst (Body_r r) = NoBytes \<Longrightarrow>
   CheckResponse p r = Return (Inr (fst (Body_r r)))"
  by (cases "Body_r r") (auto simp: CheckResponse_def io_ReadAll_def Let_def)

lemma CheckResponse_read:
  "Body_r r = (data, None) \<Longrightarrow> data \<noteq> NoBytes \<Longrightarrow>
   CheckResponse p r =
     (case json_Unmarshal p data zero_Response of
        Inl e \<Rightarrow> Return (Inl \<lparr>ResponseE = r, DataE = JStr e\<rparr>)
      | Inr response \<Rightarrow>
          if Status response \<noteq> statusSuccess then
            (case Data response of
               JObj m \<Rightarrow> Return (Inl \<lparr>ResponseE = r, DataE = map_index m ''message''\<rparr>)
             | _ \<Rightarrow> Panic ''interface conversion: interface {} is not map[string]interface {}'')
          else Return (Inr data))"
  by (simp add: CheckResponse_def io_ReadAll_def Let_def split: sum.splits json.splits)

text \<open>
  Claim C1. A response whose body is a well-formed envelope with a status other than
  \<^verbatim>\<open>success\<close> and whose \<^verbatim>\<open>data\<close> is not an object should be classified as an error.
  On the body \<^verbatim>\<open>{"status":"error","data":"boom"}\<close>, with HTTP status 200,
  \<^verbatim>\<open>CheckResponse\<close> does not return: the unchecked type assertion on \<^verbatim>\<open>Data\<close> panics,
  whatever the decoding of the promoted fields is.
\<close>

theorem CheckResponse_string_data_panics:
  "CheckResponse p
     \<lparr>StatusCode = 200, Header_r = Map.empty,
      Body_r = (Doc (JObj [(''status'', JStr ''error''), (''data'', JStr ''boom'')]) None, None),
      ContentLength = 36,
      Request = \<lparr>Method = ''POST'',
                 URL = \<lparr>Scheme = ''https'', Opaque = [], User = None,
                         Host = ''postal.example.com'', Path = ''/api/v1/send/message'',
                         ForceQuery = False, RawQuery = [], Fragment = []\<rparr>,
                 Header = Map.empty, Body = Some ''{}''\<rparr>\<rparr>
   = Panic ''interface conversion: interface {} is not map[string]interface {}''"
  by (simp add: CheckResponse_def io_ReadAll_def json_Unmarshal_def decode_Response_def
      resolve_def zero_Response_def statusSuccess_def)

subsection \<open>The exchange and the four operations\<close>

lemma Do_transport_error:
  "HTTPClient c req = Inl err \<Longrightarrow> Do L c req v = Return (None, Some (LibError err), map_option fst v)"
  by (simp add: Do_def DoRequestWithClient_def)

lemma Do_panic:
  "HTTPClient c req = Inr resp0 \<Longrightarrow>
   CheckResponse (promoted L) (completed c req resp0) = Panic p \<Longrightarrow>
   Do L c req v = Panic p"
  by (simp add: Do_def DoRequestWithClient_def)

lemma Do_classified:
  "HTTPClient c req = Inr resp0 \<Longrightarrow>
   CheckResponse (promoted L) (completed c req resp0) = Return (Inl er) \<Longrightarrow>
   Do L c req v =
     Return (Some (newResponse (completed c req resp0)), Some (APIError er), map_option fst v)"
  by (simp add: Do_def DoRequestWithClient_def)

lemma Do_accepted:
  "HTTPClient c req = Inr resp0 \<Longrightarrow>
   CheckResponse (promoted L) (completed c req resp0) = Return (Inr body) \<Longrightarrow>
   Do L c req v =
     (case (if StatusCode (completed c req resp0) \<noteq> 204 then v else None) of
        Some t \<Rightarrow>
          (case Decoder_Decode body t of
             (x, Some err) \<Rightarrow> Return (None, Some (LibError err), Some x)
           | (x, None) \<Rightarrow> Return (Some (newResponse (completed c req resp0)), None, Some x))
      | None \<Rightarrow> Return (Some (newResponse (completed c req resp0)), None, map_option fst v))"
  by (simp add: Do_def DoRequestWithClient_def Let_def)

lemma Send_built:
  "NewRequest L c ''POST'' sendPath (Some rq) = Return (Inr req) \<Longrightarrow>
   Send L P c rq =
     (case Do L c req (Some (sendRoot_target P)) of
        Panic p \<Rightarrow> Panic p
      | Return (resp, Some err, rt) \<Rightarrow> Return (None, resp, Some err)
      | Return (resp, None, rt) \<Rightarrow>
          Return (case rt of None \<Rightarrow> None | Some r \<Rightarrow> Hash r, resp, None))"
  by (simp add: Send_def)

lemma SendRAW_built:
  "NewRequest L c ''POST'' sendRawPath (Some rq) = Return (Inr req) \<Longrightarrow>
   SendRAW L P c rq =
     (case Do L c req (Some (sendRoot_target P)) of
        Panic p \<Rightarrow> Panic p
      | Return (resp, Some err, rt) \<Rightarrow> Return (None, resp, Some err)
      | Return (resp, None, rt) \<Rightarrow>
          Return (case rt of None \<Rightarrow> None | Some r \<Rightarrow> Hash r, resp, None))"
  by (simp add: SendRAW_def)

lemma GetMessage_built:
  "NewRequest L c ''POST'' detailsPath (Some rq) = Return (Inr req) \<Longrightarrow>
   GetMessage L P c rq =
     (case Do L c req (Some (messageRoot_target P)) of
        Panic p \<Rightarrow> Panic p
      | Return (resp, Some err, rt) \<Rightarrow> Return (None, resp, Some err)
      | Return (resp, None, rt) \<Rightarrow>
          Return (case rt of None \<Rightarrow> None | Some r \<Rightarrow> Message r, resp, None))"
  by (simp add: GetMessage_def)

lemma GetDeliveries_built:
  "NewRequest L c ''POST'' deliveriesPath (Some rq) = Return (Inr req) \<Longrightarrow>
   GetDeliveries L c rq =
     (case Do L c req (Some deliveriesRoot_target) of
        Panic p \<Rightarrow> Panic p
      | Return (resp, Some err, rt) \<Rightarrow> Return (None, resp, Some err)
      | Return (resp, None, rt) \<Rightarrow>
          Return (case rt of None \<Rightarrow> None | Some r \<Rightarrow> Deliveries r, resp, None))"
  by (simp add: GetDeliveries_def)

lemma CheckResponse_api_error:
  assumes "Body_r r = (Doc j None, None)"
    and "decode_Response p j zero_Response = Inr env"
    and "Status env \<noteq> statusSuccess"
    and "Data env = JObj m"
  shows "CheckResponse p r = Return (Inl \<lparr>ResponseE = r, DataE = map_index m ''message''\<rparr>)"
  using assms by (simp add: CheckResponse_read json_Unmarshal_def)

lemma CheckResponse_panic:
  assumes "Body_r r = (Doc j None, None)"
    and "decode_Response p j zero_Response = Inr env"
    and "Status env \<noteq> statusSuccess"
    and "\<nexists>m. Data env = JObj m"
  shows "CheckResponse p r = Panic ''interface conversion: interface {} is not map[string]interface {}''"
  using assms by (cases "Data env") (simp_all add: CheckResponse_read json_Unmarshal_def)


lemmas request_eval =
  NewRequest_def NewClient_def URL_Parse_def ResolveReference_def resolvePath_def
  up_to_last_slash_def http_NewRequest_def isTokenByte_def removeEmptyPort_def
  finish_request_def sendPath_def sendBasePath_def sendRawPath_def detailsPath_def
  deliveriesPath_def messagesBasePath_def

lemmas exchange_eval =
  Do_def DoRequestWithClient_def completed_def CheckResponse_def io_ReadAll_def
  json_Unmarshal_def decode_Response_def resolve_def zero_Response_def statusSuccess_def
  newResponse_def map_index_def Let_def

lemma Do_api_error:
  assumes "HTTPClient c req = Inr resp0"
    and "Body_r (completed c req resp0) = (Doc j None, None)"
    and "decode_Response (promoted L) j zero_Response = Inr env"
    and "Status env \<noteq> statusSuccess"
    and "Data env = JObj m"
  shows "Do L c req v =
     Return (Some (newResponse (completed c req resp0)),
             Some (APIError \<lparr>ResponseE = completed c req resp0, DataE = map_index m ''message''\<rparr>),
             map_option fst v)"
  using assms by (simp add: Do_classified CheckResponse_api_error)

lemmas header_eval =
  Header_Set_def Header_Add_def Header_Get_def CanonicalMIMEHeaderKey_def upper_def lower_def
  mediaType_def userAgent_def libraryVersion_def Let_def

lemma example_built_send:
  "NewRequest example_lib (example_client t) ''POST'' sendPath (Some ())
   = Return (Inr (example_request sendPath))"
  by (simp add: request_eval header_eval)

lemma example_built_raw:
  "NewRequest example_lib (example_client t) ''POST'' sendRawPath (Some ())
   = Return (Inr (example_request sendRawPath))"
  by (simp add: request_eval header_eval)

lemma example_built_details:
  "NewRequest example_lib (example_client t) ''POST'' detailsPath (Some ())
   = Return (Inr (example_request detailsPath))"
  by (simp add: request_eval header_eval)

lemma example_built_deliveries:
  "NewRequest example_lib (example_client t) ''POST'' deliveriesPath (Some ())
   = Return (Inr (example_request deliveriesPath))"
  by (simp add: request_eval header_eval)

lemma example_built:
  "p \<in> {sendPath, sendRawPath, detailsPath, deliveriesPath} \<Longrightarrow>
   NewRequest example_lib (example_client t) ''POST'' p (Some ()) = Return (Inr (example_request p))"
  using example_built_send example_built_raw example_built_details example_built_deliveries
  by blast

lemma example_completed: "completed (example_client t) req resp = resp"
  by (simp add: completed_def NewClient_def)

lemma example_exchange:
  "p \<in> {sendPath, sendRawPath, detailsPath, deliveriesPath} \<Longrightarrow>
   exchange example_lib (example_client (answering code b)) p () (example_request p)
     (example_response code b p) b"
  by (simp add: example_built example_completed) (simp add: NewClient_def)

lemmas envelope_eval =
  decode_Response_def resolve_def zero_Response_def statusSuccess_def fits_float64_def
  fits_float32_def find_field_def upper_def

text \<open>
  An envelope with a status other than \<^verbatim>\<open>success\<close> whose \<^verbatim>\<open>data\<close> is an object: each of
  the four operations returns no typed result, the \<^verbatim>\<open>*Response\<close>, and an
  \<^verbatim>\<open>*ErrorResponse\<close> that holds the HTTP response the transport returned (with its
  status code and its request) and the value of \<^verbatim>\<open>data.message\<close>, nil when \<^verbatim>\<open>data\<close>
  has no such member; the HTTP status code plays no part.
\<close>

lemma non_success_gives_APIError:
  assumes "decode_Response (promoted L) j zero_Response = Inr env"
    and "Status env \<noteq> statusSuccess"
    and "Data env = JObj m"
  shows
   "(NewRequest L c ''POST'' sendPath (Some rq) = Return (Inr req) \<and>
     HTTPClient c req = Inr resp0 \<and> Body_r (completed c req resp0) = (Doc j None, None)
     \<longrightarrow> Send L P c rq =
           Return (None, Some (newResponse (completed c req resp0)),
                   Some (APIError \<lparr>ResponseE = completed c req resp0,
                                   DataE = map_index m ''message''\<rparr>))) \<and>
    (NewRequest L c ''POST'' sendRawPath (Some rq) = Return (Inr req) \<and>
     HTTPClient c req = Inr resp0 \<and> Body_r (completed c req resp0) = (Doc j None, None)
     \<longrightarrow> SendRAW L P c rq =
           Return (None, Some (newResponse (completed c req resp0)),
                   Some (APIError \<lparr>ResponseE = completed c req resp0,
                                   DataE = map_index m ''message''\<rparr>))) \<and>
    (NewRequest L c ''POST'' detailsPath (Some rq) = Return (Inr req) \<and>
     HTTPClient c req = Inr resp0 \<and> Body_r (completed c req resp0) = (Doc j None, None)
     \<longrightarrow> GetMessage L Q c rq =
           Return (None, Some (newResponse (completed c req resp0)),
                   Some (APIError \<lparr>ResponseE = completed c req resp0,
                                   DataE = map_index m ''message''\<rparr>))) \<and>
    (NewRequest L c ''POST'' deliveriesPath (Some rq) = Return (Inr req) \<and>
     HTTPClient c req = Inr resp0 \<and> Body_r (completed c req resp0) = (Doc j None, None)
     \<longrightarrow> GetDeliveries L c rq =
           Return (None, Some (newResponse (completed c req resp0)),
                   Some (APIError \<lparr>ResponseE = completed c req resp0,
                                   DataE = map_index m ''message''\<rparr>)))"
  using assms
  by (simp add: Send_built SendRAW_built GetMessage_built GetDeliveries_built Do_api_error)

text \<open>
  The lemma at the body \<^verbatim>\<open>{"status":"error","data":{"message":"no such server"}}\<close>,
  under HTTP 200 for \<^verbatim>\<open>Send\<close> and \<^verbatim>\<open>SendRAW\<close> and under HTTP 500 for the other two:
  the error holds the method and the URL of the request that was built.
\<close>

lemma non_success_gives_APIError_example:
  "Send example_lib example_payload (example_client (answering 200 (Doc (JObj example_failure) None))) ()
   = Return (None,
       Some (newResponse (example_response 200 (Doc (JObj example_failure) None) sendPath)),
       Some (APIError \<lparr>ResponseE = example_response 200 (Doc (JObj example_failure) None) sendPath,
                       DataE = JStr ''no such server''\<rparr>)) \<and>
   SendRAW example_lib example_payload (example_client (answering 200 (Doc (JObj example_failure) None))) ()
   = Return (None,
       Some (newResponse (example_response 200 (Doc (JObj example_failure) None) sendRawPath)),
       Some (APIError \<lparr>ResponseE = example_response 200 (Doc (JObj example_failure) None) sendRawPath,
                       DataE = JStr ''no such server''\<rparr>)) \<and>
   GetMessage example_lib example_payload (example_client (answering 500 (Doc (JObj example_failure) None))) ()
   = Return (None,
       Some (newResponse (example_response 500 (Doc (JObj example_failure) None) detailsPath)),
       Some (APIError \<lparr>ResponseE = example_response 500 (Doc (JObj example_failure) None) detailsPath,
                       DataE = JStr ''no such server''\<rparr>)) \<and>
   GetDeliveries example_lib (example_client (answering 500 (Doc (JObj example_failure) None))) ()
   = Return (None,
       Some (newResponse (example_response 500 (Doc (JObj example_failure) None) deliveriesPath)),
       Some (APIError \<lparr>ResponseE = example_response 500 (Doc (JObj example_failure) None) deliveriesPath,
                       DataE = JStr ''no such server''\<rparr>))"
proof -
  let ?m = "[(''message'', JStr ''no such server'')]"
  let ?b = "Doc (JObj example_failure) None"
  let ?env = "zero_Response\<lparr>Status := ''error'', Data := JObj ?m\<rparr>"
  have env: "decode_Response (promoted example_lib) (JObj example_failure) zero_Response = Inr ?env"
    by (simp add: decode_Response_def resolve_def)
  have st: "Status ?env \<noteq> statusSuccess"
    by (simp add: statusSuccess_def)
  have dt: "Data ?env = JObj ?m"
    by simp
  note inst = non_success_gives_APIError
    [OF env st dt, where rq = "()" and P = example_payload and Q = example_payload]
  have "Send example_lib example_payload (example_client (answering 200 ?b)) ()
        = Return (None, Some (newResponse (example_response 200 ?b sendPath)),
            Some (APIError \<lparr>ResponseE = example_response 200 ?b sendPath,
                            DataE = JStr ''no such server''\<rparr>))"
    using inst [where c = "example_client (answering 200 ?b)"
        and req = "example_request sendPath"
        and ?resp0.0 = "example_response 200 ?b sendPath", THEN conjunct1]
      example_exchange [of sendPath 200 ?b]
    by (simp add: example_completed map_index_def)
  moreover
  have "SendRAW example_lib example_payload (example_client (answering 200 ?b)) ()
        = Return (None, Some (newResponse (example_response 200 ?b sendRawPath)),
            Some (APIError \<lparr>ResponseE = example_response 200 ?b sendRawPath,
                            DataE = JStr ''no such server''\<rparr>))"
    using inst [where c = "example_client (answering 200 ?b)"
        and req = "example_request sendRawPath"
        and ?resp0.0 = "example_response 200 ?b sendRawPath", THEN conjunct2, THEN conjunct1]
      example_exchange [of sendRawPath 200 ?b]
    by (simp add: example_completed map_index_def)
  moreover
  have "GetMessage example_lib example_payload (example_client (answering 500 ?b)) ()
        = Return (None, Some (newResponse (example_response 500 ?b detailsPath)),
            Some (APIError \<lparr>ResponseE = example_response 500 ?b detailsPath,
                            DataE = JStr ''no such server''\<rparr>))"
    using inst [where c = "example_client (answering 500 ?b)"
        and req = "example_request detailsPath"
        and ?resp0.0 = "example_response 500 ?b detailsPath",
        THEN conjunct2, THEN conjunct2, THEN conjunct1]
      example_exchange [of detailsPath 500 ?b]
    by (simp add: example_completed map_index_def)
  moreover
  have "GetDeliveries example_lib (example_client (answering 500 ?b)) ()
        = Return (None, Some (newResponse (example_response 500 ?b deliveriesPath)),
            Some (APIError \<lparr>ResponseE = example_response 500 ?b deliveriesPath,
                            DataE = JStr ''no such server''\<rparr>))"
    using inst [where c = "example_client (answering 500 ?b)"
        and req = "example_request deliveriesPath"
        and ?resp0.0 = "example_response 500 ?b deliveriesPath",
        THEN conjunct2, THEN conjunct2, THEN conjunct2]
      example_exchange [of deliveriesPath 500 ?b]
    by (simp add: example_completed map_index_def)
  ultimately show ?thesis
    by blast
qed

text \<open>
  Claim C2. For every envelope with a status other than \<^verbatim>\<open>success\<close>, an operation
  should return an \<^verbatim>\<open>APIError\<close> with the method, the URL, the status code and the
  message, and no typed result, whatever the HTTP status code. On the body
  \<^verbatim>\<open>{"status":"error","data":"boom"}\<close> under HTTP 200, \<^verbatim>\<open>Send\<close> returns neither an
  error nor a result: the unchecked type assertion of \<^verbatim>\<open>CheckResponse\<close> panics, the
  defect of claim C1, and neither \<^verbatim>\<open>Do\<close> nor \<^verbatim>\<open>Send\<close> recovers. Where \<^verbatim>\<open>data\<close> is
  an object the operations return the error (\<open>non_success_gives_APIError\<close> above).
\<close>

theorem Send_string_data_panics:
  "Send example_lib example_payload
     (example_client (answering 200
        (Doc (JObj [(''status'', JStr ''error''), (''data'', JStr ''boom'')]) None))) ()
   = Panic ''interface conversion: interface {} is not map[string]interface {}''"
  by (simp add: Send_def request_eval exchange_eval sendRoot_target_def)

lemma Do_empty_body_with_target:
  assumes "HTTPClient c req = Inr resp0"
    and "fst (Body_r (completed c req resp0)) = NoBytes"
    and "StatusCode (completed c req resp0) \<noteq> 204"
  shows "Do L c req (Some t) = Return (None, Some (LibError ''EOF''), Some (fst t))"
  using assms by (simp add: Do_accepted CheckResponse_unread Decoder_Decode_def)

text \<open>
  Claim C5. A response without body bytes is classified as a success with the empty
  payload. \<^verbatim>\<open>Do\<close> then returns the \<^verbatim>\<open>*Response\<close> and a nil error without decoding
  when there is no target, and also when the status code is 204 (no content): the
  target is left as it was.
\<close>

theorem empty_body_is_success:
  assumes "HTTPClient c req = Inr resp0"
    and "fst (Body_r (completed c req resp0)) = NoBytes"
  shows "CheckResponse (promoted L) (completed c req resp0) = Return (Inr NoBytes) \<and>
         Do L c req None = Return (Some (newResponse (completed c req resp0)), None, None) \<and>
         (StatusCode (completed c req resp0) = 204 \<longrightarrow>
            Do L c req (Some t) =
              Return (Some (newResponse (completed c req resp0)), None, Some (fst t)))"
  using assms by (simp add: Do_accepted CheckResponse_unread)

text \<open>
  The theorem at a 204 response without body, with no target and with a target.
\<close>

theorem empty_body_is_success_witness:
  "CheckResponse (promoted example_lib)
     \<lparr>StatusCode = 204, Header_r = Map.empty, Body_r = (NoBytes, None), ContentLength = - 1,
      Request = \<lparr>Method = ''POST'', URL = https_url ''postal.example.com'' ''/api/v1/send/raw'',
                 Header = Map.empty, Body = Some ''{}''\<rparr>\<rparr>
     = Return (Inr NoBytes) \<and>
   Do example_lib (example_client (answering 204 NoBytes))
     \<lparr>Method = ''POST'', URL = https_url ''postal.example.com'' ''/api/v1/send/raw'',
      Header = Map.empty, Body = Some ''{}''\<rparr> (None :: unit target option)
     = Return (Some \<lparr>HTTP = Some \<lparr>StatusCode = 204, Header_r = Map.empty,
                        Body_r = (NoBytes, None), ContentLength = - 1,
                        Request = \<lparr>Method = ''POST'',
                                   URL = https_url ''postal.example.com'' ''/api/v1/send/raw'',
                                   Header = Map.empty, Body = Some ''{}''\<rparr>\<rparr>,
                      Status = [], Time = 0, Flags = None, Data = JNull\<rparr>, None, None) \<and>
   Do example_lib (example_client (answering 204 NoBytes))
     \<lparr>Method = ''POST'', URL = https_url ''postal.example.com'' ''/api/v1/send/raw'',
      Header = Map.empty, Body = Some ''{}''\<rparr> (Some deliveriesRoot_target)
     = Return (Some \<lparr>HTTP = Some \<lparr>StatusCode = 204, Header_r = Map.empty,
                        Body_r = (NoBytes, None), ContentLength = - 1,
                        Request = \<lparr>Method = ''POST'',
                                   URL = https_url ''postal.example.com'' ''/api/v1/send/raw'',
                                   Header = Map.empty, Body = Some ''{}''\<rparr>\<rparr>,
                      Status = [], Time = 0, Flags = None, Data = JNull\<rparr>, None,
               Some \<lparr>Deliveries = None\<rparr>)"
proof -
  let ?req = "\<lparr>Method = ''POST'', URL = https_url ''postal.example.com'' ''/api/v1/send/raw'',
                Header = Map.empty, Body = Some ''{}''\<rparr>"
  let ?resp = "\<lparr>StatusCode = 204, Header_r = Map.empty, Body_r = (NoBytes, None),
                 ContentLength = - 1, Request = ?req\<rparr>"
  let ?c = "example_client (answering 204 NoBytes)"
  have sent: "HTTPClient ?c ?req = Inr ?resp"
    by (simp add: NewClient_def)
  have same: "completed ?c ?req ?resp = ?resp"
    by (simp add: completed_def NewClient_def)
  have empty: "fst (Body_r (completed ?c ?req ?resp)) = NoBytes"
    by (simp add: same)
  have code: "StatusCode (completed ?c ?req ?resp) = 204"
    by (simp add: same)
  from empty_body_is_success [OF sent empty, where L = example_lib and t = deliveriesRoot_target]
    code
  show ?thesis
    unfolding same by (simp add: newResponse_def zero_Response_def deliveriesRoot_target_def)
qed

text \<open>
  Claim C8. As stated (a non-nil \<^verbatim>\<open>*Response\<close> on every exit path once the transport
  has returned a response) the claim fails on the decode error, where \<^verbatim>\<open>Do\<close> returns
  \<^verbatim>\<open>nil, err\<close>. Amended: whenever the transport returns a response and \<^verbatim>\<open>Do\<close>
  returns, the \<^verbatim>\<open>*Response\<close> wraps that HTTP response (status code, headers) when the
  error is nil and when it is a classification error, which holds the same HTTP
  response; with the error of a failed decode the \<^verbatim>\<open>*Response\<close> is nil.
\<close>

theorem Do_response_or_decode_error:
  assumes "HTTPClient c req = Inr resp0"
    and "Do L c req v = Return (r, e, x)"
  shows "(case e of
            None \<Rightarrow> r = Some (newResponse (completed c req resp0))
          | Some (APIError er) \<Rightarrow>
              r = Some (newResponse (completed c req resp0)) \<and>
              ResponseE er = completed c req resp0
          | Some (LibError t) \<Rightarrow> r = None) \<and>
         HTTP (newResponse (completed c req resp0)) = Some (completed c req resp0)"
proof (cases "CheckResponse (promoted L) (completed c req resp0)")
  case (Panic p)
  with assms show ?thesis by (simp add: Do_panic)
next
  case (Return cr)
  show ?thesis
  proof (cases cr)
    case (Inl er)
    have "ResponseE er = completed c req resp0"
      using Return Inl
      by (auto simp: CheckResponse_def Let_def split: prod.splits if_splits sum.splits json.splits)
    with assms Return Inl show ?thesis
      by (auto simp: Do_classified newResponse_def)
  next
    case (Inr body)
    with assms Return show ?thesis
      by (auto simp: Do_accepted newResponse_def split: option.splits if_splits prod.splits)
  qed
qed


text \<open>
  The theorem at an exchange that ends in a classification error: HTTP 500 with the body
  \<^verbatim>\<open>{"status":"error","data":{"message":"down"}}\<close>.
\<close>

theorem Do_response_or_decode_error_witness:
  "(case Do example_lib
           (example_client (answering 500
              (Doc (JObj [(''status'', JStr ''error''),
                          (''data'', JObj [(''message'', JStr ''down'')])]) None)))
           \<lparr>Method = ''POST'', URL = https_url ''postal.example.com'' ''/api/v1/send/raw'',
            Header = Map.empty, Body = Some ''{}''\<rparr> (Some deliveriesRoot_target) of
      Return (Some r, Some (APIError er), x) \<Rightarrow>
        HTTP r = Some (ResponseE er) \<and> StatusCode (ResponseE er) = 500 \<and>
        Header_r (ResponseE er) = Map.empty
    | _ \<Rightarrow> False)"
proof -
  let ?j = "JObj [(''status'', JStr ''error''), (''data'', JObj [(''message'', JStr ''down'')])]"
  let ?req = "\<lparr>Method = ''POST'', URL = https_url ''postal.example.com'' ''/api/v1/send/raw'',
                Header = Map.empty, Body = Some ''{}''\<rparr>"
  let ?resp = "\<lparr>StatusCode = 500, Header_r = Map.empty, Body_r = (Doc ?j None, None),
                 ContentLength = - 1, Request = ?req\<rparr>"
  let ?c = "example_client (answering 500 (Doc ?j None))"
  let ?er = "\<lparr>ResponseE = ?resp, DataE = JStr ''down''\<rparr>"
  have sent: "HTTPClient ?c ?req = Inr ?resp"
    by (simp add: NewClient_def)
  have same: "completed ?c ?req ?resp = ?resp"
    by (simp add: completed_def NewClient_def)
  have ran: "Do example_lib ?c ?req (Some deliveriesRoot_target)
              = Return (Some (newResponse ?resp), Some (APIError ?er), Some (fst deliveriesRoot_target))"
    by (simp add: exchange_eval NewClient_def)
  from Do_response_or_decode_error [OF sent ran]
  have "HTTP (newResponse ?resp) = Some ?resp"
    unfolding same by simp
  with ran show ?thesis
    by simp
qed

text \<open>
  Against claim C8 as stated: the transport returns HTTP 200 with the body
  \<^verbatim>\<open>{"status":"success","data":"oops"}\<close>, the target expects an array, and \<^verbatim>\<open>Do\<close>
  returns a nil \<^verbatim>\<open>*Response\<close> with the decode error.
\<close>

theorem Do_decode_error_returns_nil_Response:
  "Do example_lib
     (example_client (answering 200
        (Doc (JObj [(''status'', JStr ''success''), (''data'', JStr ''oops'')]) None)))
     \<lparr>Method = ''POST'', URL = https_url ''postal.example.com'' ''/api/v1/messages/deliveries'',
      Header = Map.empty, Body = Some ''{}''\<rparr> (Some deliveriesRoot_target)
   = Return (None,
       Some (LibError ''json: cannot unmarshal string into Go value of type []postal.MessageDeliveries''),
       Some \<lparr>Deliveries = Some []\<rparr>)"
  by (simp add: exchange_eval NewClient_def Decoder_Decode_def deliveriesRoot_target_def
      decode_root_def find_field_def decode_deliveries_def type_error_def)

subsection \<open>Decoding the typed results of a success\<close>

lemma CheckResponse_success:
  assumes "Body_r r = (Doc j None, None)"
    and "decode_Response p j zero_Response = Inr env"
    and "Status env = statusSuccess"
  shows "CheckResponse p r = Return (Inr (Doc j None))"
  using assms by (simp add: CheckResponse_read json_Unmarshal_def)

lemma store_data_other:
  "\<forall>m \<in> set ms. \<not> is_data m \<Longrightarrow> store_data P ms x = (x, [])"
  by (induction ms arbitrary: x) auto

lemma store_data_null:
  "\<forall>m \<in> set ms. is_data m \<longrightarrow> snd m = JNull \<Longrightarrow>
   store_data P ms x = (if \<exists>m \<in> set ms. is_data m then None else x, [])"
proof (induction ms arbitrary: x)
  case Nil
  then show ?case by simp
next
  case (Cons m ms)
  obtain name v where m: "m = (name, v)" by (cases m)
  show ?case
  proof (cases "is_data m")
    case True
    with Cons.prems m have "v = JNull" by simp
    with True m Cons.IH [of None] Cons.prems show ?thesis by auto
  next
    case False
    with m Cons.IH [of x] Cons.prems show ?thesis by simp
  qed
qed

lemma store_data_single:
  assumes "filter is_data ms = [(k, v)]" and "v \<noteq> JNull" and "snd P v (fst P) = (p, es)"
  shows "store_data P ms None = (Some p, es)"
  using assms(1)
proof (induction ms)
  case Nil
  then show ?case by simp
next
  case (Cons m ms)
  obtain name w where m: "m = (name, w)" by (cases m)
  show ?case
  proof (cases "is_data m")
    case True
    with Cons.prems have mk: "m = (k, v)" and rest: "filter is_data ms = []" by simp_all
    from rest have "\<forall>m \<in> set ms. \<not> is_data m"
      by (simp add: filter_empty_conv)
    then have "store_data P ms (Some p) = (Some p, [])"
      by (rule store_data_other)
    with True mk assms(2,3) show ?thesis by auto
  next
    case False
    with Cons.prems have "filter is_data ms = [(k, v)]" by simp
    with Cons.IH False m show ?thesis by simp
  qed
qed

lemma Decode_messageRoot:
  "Decoder_Decode (Doc (JObj ms) rest) (messageRoot_target P) =
     (\<lparr>Message = fst (store_data P ms None)\<rparr>,
      case snd (store_data P ms None) of [] \<Rightarrow> None | e # es \<Rightarrow> Some e)"
  by (simp add: Decoder_Decode_def messageRoot_target_def decode_root_def
      split: prod.splits list.splits)

lemma Decode_sendRoot:
  "Decoder_Decode (Doc (JObj ms) rest) (sendRoot_target P) =
     (\<lparr>Hash = fst (store_data P ms None)\<rparr>,
      case snd (store_data P ms None) of [] \<Rightarrow> None | e # es \<Rightarrow> Some e)"
  by (simp add: Decoder_Decode_def sendRoot_target_def decode_root_def
      split: prod.splits list.splits)

lemma Decode_deliveriesRoot:
  "Decoder_Decode (Doc (JObj ms) rest) deliveriesRoot_target =
     (\<lparr>Deliveries = fst (store_data ([], decode_deliveries) ms None)\<rparr>,
      case snd (store_data ([], decode_deliveries) ms None) of [] \<Rightarrow> None | e # es \<Rightarrow> Some e)"
  by (simp add: Decoder_Decode_def deliveriesRoot_target_def decode_root_def
      split: prod.splits list.splits)

lemma Do_success:
  assumes "HTTPClient c req = Inr resp0"
    and "Body_r (completed c req resp0) = (Doc (JObj ms) None, None)"
    and "success_envelope L ms"
  shows "Do L c req v =
     (case (if StatusCode (completed c req resp0) \<noteq> 204 then v else None) of
        Some t \<Rightarrow>
          (case Decoder_Decode (Doc (JObj ms) None) t of
             (x, Some err) \<Rightarrow> Return (None, Some (LibError err), Some x)
           | (x, None) \<Rightarrow> Return (Some (newResponse (completed c req resp0)), None, Some x))
      | None \<Rightarrow> Return (Some (newResponse (completed c req resp0)), None, map_option fst v))"
  using assms by (auto simp: Do_accepted CheckResponse_success)


lemma fst_sendRoot_target: "fst (sendRoot_target P) = \<lparr>Hash = None\<rparr>"
  by (simp add: sendRoot_target_def)

lemma fst_messageRoot_target: "fst (messageRoot_target P) = \<lparr>Message = None\<rparr>"
  by (simp add: messageRoot_target_def)

lemma fst_deliveriesRoot_target: "fst deliveriesRoot_target = \<lparr>Deliveries = None\<rparr>"
  by (simp add: deliveriesRoot_target_def)

lemma Send_success:
  assumes "exchange L c sendPath rq req resp0 (Doc (JObj ms) None)" and "success_envelope L ms"
  shows "Send L P c rq =
     (if StatusCode (completed c req resp0) \<noteq> 204 then
        (case store_data P ms None of
           (x, []) \<Rightarrow> Return (x, Some (newResponse (completed c req resp0)), None)
         | (x, e # es) \<Rightarrow> Return (None, None, Some (LibError e)))
      else Return (None, Some (newResponse (completed c req resp0)), None))"
  using assms
  by (auto simp: Send_built Do_success Decode_sendRoot fst_sendRoot_target
      split: prod.splits list.splits)

lemma SendRAW_success:
  assumes "exchange L c sendRawPath rq req resp0 (Doc (JObj ms) None)" and "success_envelope L ms"
  shows "SendRAW L P c rq =
     (if StatusCode (completed c req resp0) \<noteq> 204 then
        (case store_data P ms None of
           (x, []) \<Rightarrow> Return (x, Some (newResponse (completed c req resp0)), None)
         | (x, e # es) \<Rightarrow> Return (None, None, Some (LibError e)))
      else Return (None, Some (newResponse (completed c req resp0)), None))"
  using assms
  by (auto simp: SendRAW_built Do_success Decode_sendRoot fst_sendRoot_target
      split: prod.splits list.splits)

lemma GetMessage_success:
  assumes "exchange L c detailsPath rq req resp0 (Doc (JObj ms) None)" and "success_envelope L ms"
  shows "GetMessage L P c rq =
     (if StatusCode (completed c req resp0) \<noteq> 204 then
        (case store_data P ms None of
           (x, []) \<Rightarrow> Return (x, Some (newResponse (completed c req resp0)), None)
         | (x, e # es) \<Rightarrow> Return (None, None, Some (LibError e)))
      else Return (None, Some (newResponse (completed c req resp0)), None))"
  using assms
  by (auto simp: GetMessage_built Do_success Decode_messageRoot fst_messageRoot_target
      split: prod.splits list.splits)

lemma GetDeliveries_success:
  assumes "exchange L c deliveriesPath rq req resp0 (Doc (JObj ms) None)" and "success_envelope L ms"
  shows "GetDeliveries L c rq =
     (if StatusCode (completed c req resp0) \<noteq> 204 then
        (case store_data ([], decode_deliveries) ms None of
           (x, []) \<Rightarrow> Return (x, Some (newResponse (completed c req resp0)), None)
         | (x, e # es) \<Rightarrow> Return (None, None, Some (LibError e)))
      else Return (None, Some (newResponse (completed c req resp0)), None))"
  using assms
  by (auto simp: GetDeliveries_built Do_success Decode_deliveriesRoot fst_deliveriesRoot_target
      split: prod.splits list.splits)

lemma documented_envelope: "success_envelope L documented_deliveries"
  by (simp add: decode_Response_def resolve_def zero_Response_def statusSuccess_def
      fits_float64_def)

lemma documented_data:
  "filter is_data documented_deliveries = [(''data'', documented_array)]"
  by (simp add: find_field_def)

lemmas delivery_eval =
  decode_deliveries_def decode_MessageDeliveries_def store_delivery_field_def find_field_def
  MessageDeliveries_tags_def store_int_def store_string_def store_bool_def store_float64_def
  fits_float64_def zero_MessageDeliveries_def

lemma documented_decoded:
  "decode_deliveries documented_array [] = ([documented_delivery], [])"
  by (simp add: delivery_eval)

subsection \<open>Typed results\<close>

text \<open>
  Claim C7. As stated (for every response with a success envelope whose \<^verbatim>\<open>data\<close>
  matches the target) the claim fails on a response with status code 204, which \<^verbatim>\<open>Do\<close>
  does not decode. Amended to the responses with a status code other than 204: when the
  envelope has the status \<^verbatim>\<open>success\<close> and its one \<^verbatim>\<open>data\<close> member, not null, decodes
  into the target type without a type error, each operation returns the decoded value,
  the \<^verbatim>\<open>*Response\<close> and a nil error; and \<^verbatim>\<open>GetDeliveries\<close> on the documented payload
  returns the one delivery with the payload's fields.
\<close>

theorem success_gives_typed_result:
  "(exchange L c sendPath rq req resp0 (Doc (JObj ms) None) \<and> success_envelope L ms \<and>
    StatusCode (completed c req resp0) \<noteq> 204 \<and>
    filter is_data ms = [(k, v)] \<and> v \<noteq> JNull \<and> snd P v (fst P) = (p, [])
    \<longrightarrow> Send L P c rq = Return (Some p, Some (newResponse (completed c req resp0)), None)) \<and>
   (exchange L c sendRawPath rq req resp0 (Doc (JObj ms) None) \<and> success_envelope L ms \<and>
    StatusCode (completed c req resp0) \<noteq> 204 \<and>
    filter is_data ms = [(k, v)] \<and> v \<noteq> JNull \<and> snd P v (fst P) = (p, [])
    \<longrightarrow> SendRAW L P c rq = Return (Some p, Some (newResponse (completed c req resp0)), None)) \<and>
   (exchange L c detailsPath rq req resp0 (Doc (JObj ms) None) \<and> success_envelope L ms \<and>
    StatusCode (completed c req resp0) \<noteq> 204 \<and>
    filter is_data ms = [(k, v)] \<and> v \<noteq> JNull \<and> snd Q v (fst Q) = (q, [])
    \<longrightarrow> GetMessage L Q c rq = Return (Some q, Some (newResponse (completed c req resp0)), None)) \<and>
   (exchange L c deliveriesPath rq req resp0 (Doc (JObj ms) None) \<and> success_envelope L ms \<and>
    StatusCode (completed c req resp0) \<noteq> 204 \<and>
    filter is_data ms = [(k, v)] \<and> v \<noteq> JNull \<and> decode_deliveries v [] = (ds, [])
    \<longrightarrow> GetDeliveries L c rq = Return (Some ds, Some (newResponse (completed c req resp0)), None)) \<and>
   (exchange L c deliveriesPath rq req resp0 (Doc (JObj documented_deliveries) None) \<and>
    StatusCode (completed c req resp0) \<noteq> 204
    \<longrightarrow> GetDeliveries L c rq =
          Return (Some [documented_delivery], Some (newResponse (completed c req resp0)), None))"
proof (intro conjI impI)
  assume a: "exchange L c sendPath rq req resp0 (Doc (JObj ms) None) \<and> success_envelope L ms \<and>
    StatusCode (completed c req resp0) \<noteq> 204 \<and>
    filter is_data ms = [(k, v)] \<and> v \<noteq> JNull \<and> snd P v (fst P) = (p, [])"
  then have ex: "exchange L c sendPath rq req resp0 (Doc (JObj ms) None)"
    and env: "success_envelope L ms"
    and code: "StatusCode (completed c req resp0) \<noteq> 204"
    by blast+
  from a have "store_data P ms None = (Some p, [])"
    by (intro store_data_single [where k = k and v = v]) simp_all
  with Send_success [OF ex env, where P = P] code
  show "Send L P c rq = Return (Some p, Some (newResponse (completed c req resp0)), None)"
    by simp
next
  assume a: "exchange L c sendRawPath rq req resp0 (Doc (JObj ms) None) \<and> success_envelope L ms \<and>
    StatusCode (completed c req resp0) \<noteq> 204 \<and>
    filter is_data ms = [(k, v)] \<and> v \<noteq> JNull \<and> snd P v (fst P) = (p, [])"
  then have ex: "exchange L c sendRawPath rq req resp0 (Doc (JObj ms) None)"
    and env: "success_envelope L ms"
    and code: "StatusCode (completed c req resp0) \<noteq> 204"
    by blast+
  from a have "store_data P ms None = (Some p, [])"
    by (intro store_data_single [where k = k and v = v]) simp_all
  with SendRAW_success [OF ex env, where P = P] code
  show "SendRAW L P c rq = Return (Some p, Some (newResponse (completed c req resp0)), None)"
    by simp
next
  assume a: "exchange L c detailsPath rq req resp0 (Doc (JObj ms) None) \<and> success_envelope L ms \<and>
    StatusCode (completed c req resp0) \<noteq> 204 \<and>
    filter is_data ms = [(k, v)] \<and> v \<noteq> JNull \<and> snd Q v (fst Q) = (q, [])"
  then have ex: "exchange L c detailsPath rq req resp0 (Doc (JObj ms) None)"
    and env: "success_envelope L ms"
    and code: "StatusCode (completed c req resp0) \<noteq> 204"
    by blast+
  from a have "store_data Q ms None = (Some q, [])"
    by (intro store_data_single [where k = k and v = v]) simp_all
  with GetMessage_success [OF ex env, where P = Q] code
  show "GetMessage L Q c rq = Return (Some q, Some (newResponse (completed c req resp0)), None)"
    by simp
next
  assume a: "exchange L c deliveriesPath rq req resp0 (Doc (JObj ms) None) \<and> success_envelope L ms \<and>
    StatusCode (completed c req resp0) \<noteq> 204 \<and>
    filter is_data ms = [(k, v)] \<and> v \<noteq> JNull \<and> decode_deliveries v [] = (ds, [])"
  then have ex: "exchange L c deliveriesPath rq req resp0 (Doc (JObj ms) None)"
    and env: "success_envelope L ms"
    and code: "StatusCode (completed c req resp0) \<noteq> 204"
    by blast+
  from a have "store_data ([], decode_deliveries) ms None = (Some ds, [])"
    by (intro store_data_single [where k = k and v = v]) simp_all
  with GetDeliveries_success [OF ex env] code
  show "GetDeliveries L c rq = Return (Some ds, Some (newResponse (completed c req resp0)), None)"
    by simp
next
  assume a: "exchange L c deliveriesPath rq req resp0 (Doc (JObj documented_deliveries) None) \<and>
    StatusCode (completed c req resp0) \<noteq> 204"
  then have ex: "exchange L c deliveriesPath rq req resp0 (Doc (JObj documented_deliveries) None)"
    and code: "StatusCode (completed c req resp0) \<noteq> 204"
    by blast+
  have "store_data ([], decode_deliveries) documented_deliveries None
        = (Some [documented_delivery], [])"
    by (rule store_data_single [OF documented_data]) (simp_all add: documented_decoded)
  with GetDeliveries_success [OF ex documented_envelope] code
  show "GetDeliveries L c rq =
          Return (Some [documented_delivery], Some (newResponse (completed c req resp0)), None)"
    by simp
qed


text \<open>
  The theorem at exchanges with status code 200 (201 for the last): an acknowledgement
  for \<^verbatim>\<open>Send\<close>, \<^verbatim>\<open>SendRAW\<close> and \<^verbatim>\<open>GetMessage\<close>, the documented payload for
  \<^verbatim>\<open>GetDeliveries\<close>.
\<close>

theorem success_gives_typed_result_witness:
  "Send example_lib example_payload
     (example_client (answering 200 (Doc (JObj example_acknowledgement) None))) ()
   = Return (Some ''abc@postal'',
             Some (newResponse (example_response 200 (Doc (JObj example_acknowledgement) None)
                                  sendPath)), None) \<and>
   SendRAW example_lib example_payload
     (example_client (answering 200 (Doc (JObj example_acknowledgement) None))) ()
   = Return (Some ''abc@postal'',
             Some (newResponse (example_response 200 (Doc (JObj example_acknowledgement) None)
                                  sendRawPath)), None) \<and>
   GetMessage example_lib example_payload
     (example_client (answering 200 (Doc (JObj example_acknowledgement) None))) ()
   = Return (Some ''abc@postal'',
             Some (newResponse (example_response 200 (Doc (JObj example_acknowledgement) None)
                                  detailsPath)), None) \<and>
   GetDeliveries example_lib
     (example_client (answering 200 (Doc (JObj documented_deliveries) None))) ()
   = Return (Some [documented_delivery],
             Some (newResponse (example_response 200 (Doc (JObj documented_deliveries) None)
                                  deliveriesPath)), None) \<and>
   GetDeliveries example_lib
     (example_client (answering 201 (Doc (JObj documented_deliveries) None))) ()
   = Return (Some [documented_delivery],
             Some (newResponse (example_response 201 (Doc (JObj documented_deliveries) None)
                                  deliveriesPath)), None)"
proof -
  let ?v = "JObj [(''message_id'', JStr ''abc@postal''), (''messages'', JObj [])]"
  let ?b = "Doc (JObj example_acknowledgement) None"
  let ?d = "Doc (JObj documented_deliveries) None"
  note inst = success_gives_typed_result
    [where L = example_lib and rq = "()" and k = "''data''"]
  note ack = inst
    [where c = "example_client (answering 200 ?b)" and ms = example_acknowledgement
       and v = ?v and P = example_payload and p = "''abc@postal''"
       and Q = example_payload and q = "''abc@postal''"]
  have "Send example_lib example_payload (example_client (answering 200 ?b)) ()
        = Return (Some ''abc@postal'', Some (newResponse (example_response 200 ?b sendPath)), None)"
    using ack [where req = "example_request sendPath"
        and ?resp0.0 = "example_response 200 ?b sendPath", THEN conjunct1]
      example_exchange [of sendPath 200 ?b]
    by (simp add: example_completed envelope_eval store_string_def map_index_def)
  moreover
  have "SendRAW example_lib example_payload (example_client (answering 200 ?b)) ()
        = Return (Some ''abc@postal'', Some (newResponse (example_response 200 ?b sendRawPath)), None)"
    using ack [where req = "example_request sendRawPath"
        and ?resp0.0 = "example_response 200 ?b sendRawPath", THEN conjunct2, THEN conjunct1]
      example_exchange [of sendRawPath 200 ?b]
    by (simp add: example_completed envelope_eval store_string_def map_index_def)
  moreover
  have "GetMessage example_lib example_payload (example_client (answering 200 ?b)) ()
        = Return (Some ''abc@postal'', Some (newResponse (example_response 200 ?b detailsPath)), None)"
    using ack [where req = "example_request detailsPath"
        and ?resp0.0 = "example_response 200 ?b detailsPath",
        THEN conjunct2, THEN conjunct2, THEN conjunct1]
      example_exchange [of detailsPath 200 ?b]
    by (simp add: example_completed envelope_eval store_string_def map_index_def)
  moreover
  have "GetDeliveries example_lib (example_client (answering 200 ?d)) ()
        = Return (Some [documented_delivery],
                  Some (newResponse (example_response 200 ?d deliveriesPath)), None)"
    using inst [where c = "example_client (answering 200 ?d)" and ms = documented_deliveries
        and v = documented_array and ds = "[documented_delivery]"
        and req = "example_request deliveriesPath"
        and ?resp0.0 = "example_response 200 ?d deliveriesPath",
        THEN conjunct2, THEN conjunct2, THEN conjunct2, THEN conjunct1]
      example_exchange [of deliveriesPath 200 ?d] documented_decoded
    by (simp add: example_completed envelope_eval)
  moreover
  have "GetDeliveries example_lib (example_client (answering 201 ?d)) ()
        = Return (Some [documented_delivery],
                  Some (newResponse (example_response 201 ?d deliveriesPath)), None)"
    using inst [where c = "example_client (answering 201 ?d)"
        and req = "example_request deliveriesPath"
        and ?resp0.0 = "example_response 201 ?d deliveriesPath",
        THEN conjunct2, THEN conjunct2, THEN conjunct2, THEN conjunct2]
      example_exchange [of deliveriesPath 201 ?d]
    by (simp add: example_completed)
  ultimately show ?thesis
    by blast
qed

text \<open>
  Against claim C7 as stated: the documented success payload under status code 204 gives
  a nil result with a nil error.
\<close>

theorem GetDeliveries_no_content_gives_nil:
  "GetDeliveries example_lib
     (example_client (answering 204 (Doc (JObj documented_deliveries) None))) ()
   = Return (None,
             Some (newResponse (example_response 204 (Doc (JObj documented_deliveries) None)
                                  deliveriesPath)), None)"
  using GetDeliveries_success
    [OF example_exchange [of deliveriesPath 204 "Doc (JObj documented_deliveries) None"]
        documented_envelope]
  by (simp add: example_completed)

text \<open>
  Claim C10. When the envelope has the status \<^verbatim>\<open>success\<close> and no \<^verbatim>\<open>data\<close> member, or
  only null ones, each operation returns a nil result, the \<^verbatim>\<open>*Response\<close> and a nil
  error: a nil error does not come with a result that is not nil.
\<close>

theorem no_data_gives_nil_result:
  "(exchange L c sendPath rq req resp0 (Doc (JObj ms) None) \<and> success_envelope L ms \<and>
    (\<forall>m \<in> set ms. is_data m \<longrightarrow> snd m = JNull)
    \<longrightarrow> Send L P c rq = Return (None, Some (newResponse (completed c req resp0)), None)) \<and>
   (exchange L c sendRawPath rq req resp0 (Doc (JObj ms) None) \<and> success_envelope L ms \<and>
    (\<forall>m \<in> set ms. is_data m \<longrightarrow> snd m = JNull)
    \<longrightarrow> SendRAW L P c rq = Return (None, Some (newResponse (completed c req resp0)), None)) \<and>
   (exchange L c detailsPath rq req resp0 (Doc (JObj ms) None) \<and> success_envelope L ms \<and>
    (\<forall>m \<in> set ms. is_data m \<longrightarrow> snd m = JNull)
    \<longrightarrow> GetMessage L Q c rq = Return (None, Some (newResponse (completed c req resp0)), None)) \<and>
   (exchange L c deliveriesPath rq req resp0 (Doc (JObj ms) None) \<and> success_envelope L ms \<and>
    (\<forall>m \<in> set ms. is_data m \<longrightarrow> snd m = JNull)
    \<longrightarrow> GetDeliveries L c rq = Return (None, Some (newResponse (completed c req resp0)), None))"
proof (intro conjI impI)
  assume a: "exchange L c sendPath rq req resp0 (Doc (JObj ms) None) \<and> success_envelope L ms \<and>
    (\<forall>m \<in> set ms. is_data m \<longrightarrow> snd m = JNull)"
  then have ex: "exchange L c sendPath rq req resp0 (Doc (JObj ms) None)"
    and env: "success_envelope L ms"
    and nulls: "\<forall>m \<in> set ms. is_data m \<longrightarrow> snd m = JNull"
    by blast+
  from store_data_null [OF nulls, of P None] Send_success [OF ex env, where P = P]
  show "Send L P c rq = Return (None, Some (newResponse (completed c req resp0)), None)"
    by simp
next
  assume a: "exchange L c sendRawPath rq req resp0 (Doc (JObj ms) None) \<and> success_envelope L ms \<and>
    (\<forall>m \<in> set ms. is_data m \<longrightarrow> snd m = JNull)"
  then have ex: "exchange L c sendRawPath rq req resp0 (Doc (JObj ms) None)"
    and env: "success_envelope L ms"
    and nulls: "\<forall>m \<in> set ms. is_data m \<longrightarrow> snd m = JNull"
    by blast+
  from store_data_null [OF nulls, of P None] SendRAW_success [OF ex env, where P = P]
  show "SendRAW L P c rq = Return (None, Some (newResponse (completed c req resp0)), None)"
    by simp
next
  assume a: "exchange L c detailsPath rq req resp0 (Doc (JObj ms) None) \<and> success_envelope L ms \<and>
    (\<forall>m \<in> set ms. is_data m \<longrightarrow> snd m = JNull)"
  then have ex: "exchange L c detailsPath rq req resp0 (Doc (JObj ms) None)"
    and env: "success_envelope L ms"
    and nulls: "\<forall>m \<in> set ms. is_data m \<longrightarrow> snd m = JNull"
    by blast+
  from store_data_null [OF nulls, of Q None] GetMessage_success [OF ex env, where P = Q]
  show "GetMessage L Q c rq = Return (None, Some (newResponse (completed c req resp0)), None)"
    by simp
next
  assume a: "exchange L c deliveriesPath rq req resp0 (Doc (JObj ms) None) \<and> success_envelope L ms \<and>
    (\<forall>m \<in> set ms. is_data m \<longrightarrow> snd m = JNull)"
  then have ex: "exchange L c deliveriesPath rq req resp0 (Doc (JObj ms) None)"
    and env: "success_envelope L ms"
    and nulls: "\<forall>m \<in> set ms. is_data m \<longrightarrow> snd m = JNull"
    by blast+
  from store_data_null [OF nulls, of "([], decode_deliveries)" None] GetDeliveries_success [OF ex env]
  show "GetDeliveries L c rq = Return (None, Some (newResponse (completed c req resp0)), None)"
    by simp
qed


text \<open>
  The theorem at the bodies \<^verbatim>\<open>{"status":"success"}\<close> and
  \<^verbatim>\<open>{"status":"success","data":null}\<close>.
\<close>

theorem no_data_gives_nil_result_witness:
  "Send example_lib example_payload
     (example_client (answering 200 (Doc (JObj [(''status'', JStr ''success'')]) None))) ()
   = Return (None,
             Some (newResponse (example_response 200 (Doc (JObj [(''status'', JStr ''success'')]) None)
                                  sendPath)), None) \<and>
   SendRAW example_lib example_payload
     (example_client (answering 200 (Doc (JObj [(''status'', JStr ''success'')]) None))) ()
   = Return (None,
             Some (newResponse (example_response 200 (Doc (JObj [(''status'', JStr ''success'')]) None)
                                  sendRawPath)), None) \<and>
   GetMessage example_lib example_payload
     (example_client (answering 200
        (Doc (JObj [(''status'', JStr ''success''), (''data'', JNull)]) None))) ()
   = Return (None,
             Some (newResponse (example_response 200
                     (Doc (JObj [(''status'', JStr ''success''), (''data'', JNull)]) None)
                     detailsPath)), None) \<and>
   GetDeliveries example_lib
     (example_client (answering 200
        (Doc (JObj [(''status'', JStr ''success''), (''data'', JNull)]) None))) ()
   = Return (None,
             Some (newResponse (example_response 200
                     (Doc (JObj [(''status'', JStr ''success''), (''data'', JNull)]) None)
                     deliveriesPath)), None)"
proof -
  let ?a = "[(''status'', JStr ''success'')]"
  let ?n = "[(''status'', JStr ''success''), (''data'', JNull)]"
  note inst = no_data_gives_nil_result
    [where L = example_lib and rq = "()" and P = example_payload and Q = example_payload]
  have "Send example_lib example_payload (example_client (answering 200 (Doc (JObj ?a) None))) ()
        = Return (None, Some (newResponse (example_response 200 (Doc (JObj ?a) None) sendPath)), None)"
    using inst [where c = "example_client (answering 200 (Doc (JObj ?a) None))" and ms = ?a
        and req = "example_request sendPath"
        and ?resp0.0 = "example_response 200 (Doc (JObj ?a) None) sendPath", THEN conjunct1]
      example_exchange [of sendPath 200 "Doc (JObj ?a) None"]
    by (simp add: example_completed envelope_eval)
  moreover
  have "SendRAW example_lib example_payload (example_client (answering 200 (Doc (JObj ?a) None))) ()
        = Return (None, Some (newResponse (example_response 200 (Doc (JObj ?a) None) sendRawPath)), None)"
    using inst [where c = "example_client (answering 200 (Doc (JObj ?a) None))" and ms = ?a
        and req = "example_request sendRawPath"
        and ?resp0.0 = "example_response 200 (Doc (JObj ?a) None) sendRawPath",
        THEN conjunct2, THEN conjunct1]
      example_exchange [of sendRawPath 200 "Doc (JObj ?a) None"]
    by (simp add: example_completed envelope_eval)
  moreover
  have "GetMessage example_lib example_payload (example_client (answering 200 (Doc (JObj ?n) None))) ()
        = Return (None, Some (newResponse (example_response 200 (Doc (JObj ?n) None) detailsPath)), None)"
    using inst [where c = "example_client (answering 200 (Doc (JObj ?n) None))" and ms = ?n
        and req = "example_request detailsPath"
        and ?resp0.0 = "example_response 200 (Doc (JObj ?n) None) detailsPath",
        THEN conjunct2, THEN conjunct2, THEN conjunct1]
      example_exchange [of detailsPath 200 "Doc (JObj ?n) None"]
    by (simp add: example_completed envelope_eval)
  moreover
  have "GetDeliveries example_lib (example_client (answering 200 (Doc (JObj ?n) None))) ()
        = Return (None, Some (newResponse (example_response 200 (Doc (JObj ?n) None) deliveriesPath)), None)"
    using inst [where c = "example_client (answering 200 (Doc (JObj ?n) None))" and ms = ?n
        and req = "example_request deliveriesPath"
        and ?resp0.0 = "example_response 200 (Doc (JObj ?n) None) deliveriesPath",
        THEN conjunct2, THEN conjunct2, THEN conjunct2]
      example_exchange [of deliveriesPath 200 "Doc (JObj ?n) None"]
    by (simp add: example_completed envelope_eval)
  ultimately show ?thesis
    by blast
qed

subsection \<open>Requests\<close>

lemma canonical_keys:
  "CanonicalMIMEHeaderKey ''X-Server-API-Key'' = ''X-Server-Api-Key''"
  "CanonicalMIMEHeaderKey ''User-Agent'' = ''User-Agent''"
  "CanonicalMIMEHeaderKey ''Content-Type'' = ''Content-Type''"
  by (simp_all add: CanonicalMIMEHeaderKey_def isTokenByte_def upper_def lower_def Let_def)

lemma finish_request_forced:
  "Header (finish_request c req) ''X-Server-Api-Key'' = Some [ApiKey c]"
  "Header (finish_request c req) ''User-Agent'' = Some [UserAgent c]"
  by (simp_all add: finish_request_def Header_Set_def canonical_keys Let_def)

lemma finish_request_other:
  "k \<noteq> ''X-Server-Api-Key'' \<Longrightarrow> k \<noteq> ''User-Agent'' \<Longrightarrow>
   Header (finish_request c req) k = add_headers (headers c) (Header req) k"
  by (simp add: finish_request_def Header_Set_def canonical_keys Let_def)

lemma finish_request_rest:
  "Method (finish_request c req) = Method req" "URL (finish_request c req) = URL req"
  "Body (finish_request c req) = Body req"
  by (simp_all add: finish_request_def Let_def)

lemma add_headers_first:
  "h k = Some (v # vs) \<Longrightarrow> \<exists>ws. add_headers kvs h k = Some (v # ws)"
proof (induction kvs arbitrary: h vs)
  case Nil
  then show ?case by simp
next
  case (Cons kv kvs)
  obtain k' v' where kv: "kv = (k', v')" by (cases kv)
  from Cons.prems have "\<exists>us. Header_Add k' v' h k = Some (v # us)"
    by (auto simp: Header_Add_def)
  then obtain us where us: "Header_Add k' v' h k = Some (v # us)" ..
  have "\<exists>ws. add_headers kvs (Header_Add k' v' h) k = Some (v # ws)"
    by (rule Cons.IH [of "Header_Add k' v' h" us, OF us])
  with kv show ?case by simp
qed

lemma NewRequest_cases:
  assumes "NewRequest L c method urlStr body = Return (Inr req)"
  shows "\<exists>u r0. URL_Parse L (BaseURL c) urlStr = Return (Inr u) \<and>
           (if method = ''GET'' \<or> method = ''HEAD'' \<or> method = ''OPTIONS''
            then http_NewRequest L method (url_String L u) None = Inr r0 \<and>
                 req = finish_request c r0
            else \<exists>buf. (case body of None \<Rightarrow> Inr [] | Some b \<Rightarrow> json_Encode L b) = Inr buf \<and>
                 http_NewRequest L method (url_String L u) (Some buf) = Inr r0 \<and>
                 req = finish_request c
                         (r0\<lparr>Header := Header_Set ''Content-Type'' mediaType (Header r0)\<rparr>))"
  using assms
  by (auto simp: NewRequest_def split: outcome.splits sum.splits if_splits)

lemma http_NewRequest_fields:
  "http_NewRequest L method url body = Inr r0 \<Longrightarrow>
   Header r0 = Map.empty \<and>
   Body r0 = (case body of None \<Rightarrow> None | Some buf \<Rightarrow> if buf = [] then None else Some buf)"
  by (auto simp: http_NewRequest_def Let_def split: if_splits sum.splits)

lemma add_headers_values:
  "add_headers kvs h key =
     (case map snd (filter (\<lambda>kv. CanonicalMIMEHeaderKey (fst kv) = key) kvs) of
        [] \<Rightarrow> h key
      | v # vs \<Rightarrow> Some ((case h key of None \<Rightarrow> [] | Some ws \<Rightarrow> ws) @ v # vs))"
proof (induction kvs arbitrary: h)
  case Nil
  then show ?case by simp
next
  case (Cons kv kvs)
  obtain k v where kv: "kv = (k, v)" by (cases kv)
  show ?case
  proof (cases "CanonicalMIMEHeaderKey k = key")
    case True
    then have "Header_Add k v h key = Some ((case h key of None \<Rightarrow> [] | Some ws \<Rightarrow> ws) @ [v])"
      by (simp add: Header_Add_def)
    with True kv Cons.IH [of "Header_Add k v h"] show ?thesis
      by (simp split: list.splits)
  next
    case False
    then have "Header_Add k v h key = h key"
      by (simp add: Header_Add_def)
    with False kv Cons.IH [of "Header_Add k v h"] show ?thesis
      by (simp split: list.splits)
  qed
qed

text \<open>
  Claim C4. As stated (the header \<^verbatim>\<open>User-Agent\<close> is the library's user agent in every
  request) the claim fails for a client whose exported field \<^verbatim>\<open>UserAgent\<close> was assigned.
  Amended: in every request that \<^verbatim>\<open>NewRequest\<close> returns, the header
  \<^verbatim>\<open>X-Server-API-Key\<close> holds the client's API key and nothing else, and the header
  \<^verbatim>\<open>User-Agent\<close> holds the client's \<^verbatim>\<open>UserAgent\<close> and nothing else, whatever the extra
  headers are; every other header holds the values that the extra headers give its
  canonical key, in the order of the visit, after \<^verbatim>\<open>application/json\<close> for
  \<^verbatim>\<open>Content-Type\<close> when the method is not GET, HEAD or OPTIONS. For a client as
  \<^verbatim>\<open>NewClient\<close> returns it the two headers are the key it was given and the library's
  user agent.
\<close>

theorem forced_headers:
  assumes "NewRequest L c method urlStr body = Return (Inr req)"
  shows "Header req (CanonicalMIMEHeaderKey ''X-Server-API-Key'') = Some [ApiKey c] \<and>
         Header req (CanonicalMIMEHeaderKey ''User-Agent'') = Some [UserAgent c] \<and>
         Header_Get ''X-Server-API-Key'' (Header req) = ApiKey c \<and>
         Header_Get ''User-Agent'' (Header req) = UserAgent c \<and>
         (\<forall>key. key \<noteq> CanonicalMIMEHeaderKey ''X-Server-API-Key'' \<longrightarrow>
                key \<noteq> CanonicalMIMEHeaderKey ''User-Agent'' \<longrightarrow>
                Header req key =
                  (case (if key = ''Content-Type'' \<and> method \<notin> {''GET'', ''HEAD'', ''OPTIONS''}
                         then [mediaType] else [])
                        @ map snd (filter (\<lambda>kv. CanonicalMIMEHeaderKey (fst kv) = key) (headers c)) of
                     [] \<Rightarrow> None
                   | v # vs \<Rightarrow> Some (v # vs))) \<and>
         (c = NewClient L' d baseURL akey \<longrightarrow>
            Header_Get ''X-Server-API-Key'' (Header req) = akey \<and>
            Header_Get ''User-Agent'' (Header req) = userAgent)"
proof -
  define h0 :: Header where
    "h0 = (if method = ''GET'' \<or> method = ''HEAD'' \<or> method = ''OPTIONS''
           then Map.empty else [''Content-Type'' \<mapsto> [mediaType]])"
  have req: "\<exists>r1. req = finish_request c r1 \<and> Header r1 = h0"
  proof (cases "method = ''GET'' \<or> method = ''HEAD'' \<or> method = ''OPTIONS''")
    case True
    with NewRequest_cases [OF assms] obtain u r0
      where r0: "http_NewRequest L method (url_String L u) None = Inr r0"
        and r: "req = finish_request c r0"
      by auto
    from http_NewRequest_fields [OF r0] have "Header r0 = Map.empty"
      by simp
    with True r show ?thesis
      by (auto simp: h0_def)
  next
    case False
    with NewRequest_cases [OF assms] obtain u r0 buf
      where r0: "http_NewRequest L method (url_String L u) (Some buf) = Inr r0"
        and r: "req = finish_request c
                   (r0\<lparr>Header := Header_Set ''Content-Type'' mediaType (Header r0)\<rparr>)"
      by auto
    from http_NewRequest_fields [OF r0] have "Header r0 = Map.empty"
      by simp
    then have "Header (r0\<lparr>Header := Header_Set ''Content-Type'' mediaType (Header r0)\<rparr>) = h0"
      using False by (simp add: h0_def Header_Set_def canonical_keys)
    with r show ?thesis
      by blast
  qed
  then obtain r1 where r1: "req = finish_request c r1" and hr1: "Header r1 = h0"
    by blast
  have forced: "Header req ''X-Server-Api-Key'' = Some [ApiKey c]"
    "Header req ''User-Agent'' = Some [UserAgent c]"
    using r1 by (simp_all add: finish_request_forced)
  have others: "Header req key =
                  (case (if key = ''Content-Type'' \<and> method \<notin> {''GET'', ''HEAD'', ''OPTIONS''}
                         then [mediaType] else [])
                        @ map snd (filter (\<lambda>kv. CanonicalMIMEHeaderKey (fst kv) = key) (headers c)) of
                     [] \<Rightarrow> None
                   | v # vs \<Rightarrow> Some (v # vs))"
    if "key \<noteq> ''X-Server-Api-Key''" and "key \<noteq> ''User-Agent''" for key
  proof -
    from that r1 hr1 have "Header req key = add_headers (headers c) h0 key"
      by (simp add: finish_request_other)
    also have "\<dots> = (case map snd (filter (\<lambda>kv. CanonicalMIMEHeaderKey (fst kv) = key) (headers c)) of
        [] \<Rightarrow> h0 key
      | v # vs \<Rightarrow> Some ((case h0 key of None \<Rightarrow> [] | Some ws \<Rightarrow> ws) @ v # vs))"
      by (rule add_headers_values)
    also have "\<dots> = (case (if key = ''Content-Type'' \<and> method \<notin> {''GET'', ''HEAD'', ''OPTIONS''}
                         then [mediaType] else [])
                        @ map snd (filter (\<lambda>kv. CanonicalMIMEHeaderKey (fst kv) = key) (headers c)) of
                     [] \<Rightarrow> None
                   | v # vs \<Rightarrow> Some (v # vs))"
      by (auto simp: h0_def split: list.splits)
    finally show ?thesis .
  qed
  have made: "ApiKey (NewClient L' d baseURL akey) = akey"
    "UserAgent (NewClient L' d baseURL akey) = userAgent"
    by (simp_all add: NewClient_def)
  from forced others made show ?thesis
    by (simp add: canonical_keys Header_Get_def)
qed


text \<open>
  The theorem at a client whose extra headers carry both names, in other spellings, and
  a third name twice; and at a client as \<^verbatim>\<open>NewClient\<close> returns it.
\<close>

theorem forced_headers_witness:
  "(case NewRequest example_lib
           ((example_client (answering 200 NoBytes))
              \<lparr>headers := [(''x-server-api-key'', ''forged''), (''User-Agent'', ''curl/8''),
                           (''X-Trace'', ''1''), (''x-trace'', ''2'')]\<rparr>)
           ''POST'' sendPath (Some ()) of
      Return (Inr req) \<Rightarrow>
        Header req ''X-Server-Api-Key'' = Some [''key''] \<and>
        Header req ''User-Agent'' = Some [''gopostal/0.1.0''] \<and>
        Header_Get ''X-Server-API-Key'' (Header req) = ''key'' \<and>
        Header_Get ''User-Agent'' (Header req) = ''gopostal/0.1.0'' \<and>
        Header req ''X-Trace'' = Some [''1'', ''2''] \<and>
        Header req ''Content-Type'' = Some [''application/json'']
    | _ \<Rightarrow> False) \<and>
   (case NewRequest example_lib (example_client (answering 200 NoBytes))
           ''GET'' sendPath (Some ()) of
      Return (Inr req) \<Rightarrow>
        Header_Get ''X-Server-API-Key'' (Header req) = ''key'' \<and>
        Header_Get ''User-Agent'' (Header req) = ''gopostal/0.1.0'' \<and>
        Header req ''Content-Type'' = None
    | _ \<Rightarrow> False)"
proof -
  let ?plain = "example_client (answering 200 NoBytes)"
  let ?c = "?plain\<lparr>headers := [(''x-server-api-key'', ''forged''), (''User-Agent'', ''curl/8''),
                                (''X-Trace'', ''1''), (''x-trace'', ''2'')]\<rparr>"
  have "\<exists>req. NewRequest example_lib ?c ''POST'' sendPath (Some ()) = Return (Inr req)"
    by (simp add: request_eval)
  then obtain req where built: "NewRequest example_lib ?c ''POST'' sendPath (Some ()) = Return (Inr req)" ..
  have "\<exists>req. NewRequest example_lib ?plain ''GET'' sendPath (Some ()) = Return (Inr req)"
    by (simp add: request_eval)
  then obtain req' where built': "NewRequest example_lib ?plain ''GET'' sendPath (Some ()) = Return (Inr req')" ..
  have key: "ApiKey ?c = ''key''" and agent: "UserAgent ?c = ''gopostal/0.1.0''"
    and extra: "headers ?c = [(''x-server-api-key'', ''forged''), (''User-Agent'', ''curl/8''),
                              (''X-Trace'', ''1''), (''x-trace'', ''2'')]"
    and none: "headers ?plain = []"
    by (simp_all add: NewClient_def userAgent_def libraryVersion_def)
  note first = forced_headers [OF built, where L' = example_lib and d = "answering 200 NoBytes"
      and baseURL = "''https://postal.example.com''" and akey = "''key''"]
  note second = forced_headers [OF built', where L' = example_lib and d = "answering 200 NoBytes"
      and baseURL = "''https://postal.example.com''" and akey = "''key''"]
  from first key agent
  have a: "Header req ''X-Server-Api-Key'' = Some [''key''] \<and>
        Header req ''User-Agent'' = Some [''gopostal/0.1.0''] \<and>
        Header_Get ''X-Server-API-Key'' (Header req) = ''key'' \<and>
        Header_Get ''User-Agent'' (Header req) = ''gopostal/0.1.0''"
    by (simp add: canonical_keys)
  from first have "Header req ''X-Trace'' =
      (case (if ''X-Trace'' = ''Content-Type'' \<and> ''POST'' \<notin> {''GET'', ''HEAD'', ''OPTIONS''}
             then [mediaType] else [])
            @ map snd (filter (\<lambda>kv. CanonicalMIMEHeaderKey (fst kv) = ''X-Trace'') (headers ?c)) of
         [] \<Rightarrow> None
       | v # vs \<Rightarrow> Some (v # vs))"
    by (simp add: canonical_keys)
  then have b: "Header req ''X-Trace'' = Some [''1'', ''2'']"
    unfolding extra by (simp add: header_eval isTokenByte_def)
  from first have "Header req ''Content-Type'' =
      (case (if ''Content-Type'' = ''Content-Type'' \<and> ''POST'' \<notin> {''GET'', ''HEAD'', ''OPTIONS''}
             then [mediaType] else [])
            @ map snd (filter (\<lambda>kv. CanonicalMIMEHeaderKey (fst kv) = ''Content-Type'') (headers ?c)) of
         [] \<Rightarrow> None
       | v # vs \<Rightarrow> Some (v # vs))"
    by (simp add: canonical_keys)
  then have c: "Header req ''Content-Type'' = Some [''application/json'']"
    unfolding extra by (simp add: header_eval isTokenByte_def)
  from second
  have "Header_Get ''X-Server-API-Key'' (Header req') = ''key'' \<and>
        Header_Get ''User-Agent'' (Header req') = userAgent"
    by blast
  then have d: "Header_Get ''X-Server-API-Key'' (Header req') = ''key'' \<and>
                Header_Get ''User-Agent'' (Header req') = ''gopostal/0.1.0''"
    by (simp add: userAgent_def libraryVersion_def)
  from second have "Header req' ''Content-Type'' =
      (case (if ''Content-Type'' = ''Content-Type'' \<and> ''GET'' \<notin> {''GET'', ''HEAD'', ''OPTIONS''}
             then [mediaType] else [])
            @ map snd (filter (\<lambda>kv. CanonicalMIMEHeaderKey (fst kv) = ''Content-Type'') (headers ?plain)) of
         [] \<Rightarrow> None
       | v # vs \<Rightarrow> Some (v # vs))"
    by (simp add: canonical_keys)
  then have e: "Header req' ''Content-Type'' = None"
    unfolding none by simp
  from a b c d e built built' show ?thesis
    by simp
qed

text \<open>
  Against claim C4 as stated: a client whose \<^verbatim>\<open>UserAgent\<close> was set to \<^verbatim>\<open>evil/9\<close>
  sends that, not the library's user agent.
\<close>

theorem changed_UserAgent_is_sent:
  "(case NewRequest example_lib
           ((example_client (answering 200 NoBytes))\<lparr>UserAgent := ''evil/9''\<rparr>)
           ''POST'' sendPath (Some ()) of
      Return (Inr req) \<Rightarrow>
        Header_Get ''User-Agent'' (Header req) = ''evil/9'' \<and>
        Header_Get ''User-Agent'' (Header req) \<noteq> userAgent
    | _ \<Rightarrow> False)"
  by (simp add: request_eval header_eval)

text \<open>
  Claim C6. As stated (\<^verbatim>\<open>Content-Type\<close> set exactly when a body is present) the claim
  fails for a method other than GET, HEAD and OPTIONS without a body argument. Amended:
  for GET, HEAD and OPTIONS the request has no body and \<^verbatim>\<open>NewRequest\<close> sets no
  \<^verbatim>\<open>Content-Type\<close> of its own (the header holds what the extra headers add); for every
  other method a body argument that is not nil is encoded into the request body, and
  \<^verbatim>\<open>Content-Type\<close> is \<^verbatim>\<open>application/json\<close> whether there is a body or not.
\<close>

theorem request_body_and_content_type:
  assumes "NewRequest L c method urlStr body = Return (Inr req)"
  shows "(method \<in> {''GET'', ''HEAD'', ''OPTIONS''} \<longrightarrow>
            Body req = None \<and>
            Header req ''Content-Type'' = add_headers (headers c) Map.empty ''Content-Type'') \<and>
         (method \<notin> {''GET'', ''HEAD'', ''OPTIONS''} \<longrightarrow>
            (case body of
               None \<Rightarrow> Body req = None
             | Some b \<Rightarrow> \<exists>buf. json_Encode L b = Inr buf \<and>
                               Body req = (if buf = [] then None else Some buf)) \<and>
            Header_Get ''Content-Type'' (Header req) = mediaType)"
proof (cases "method = ''GET'' \<or> method = ''HEAD'' \<or> method = ''OPTIONS''")
  case True
  with NewRequest_cases [OF assms] obtain u r0
    where r0: "http_NewRequest L method (url_String L u) None = Inr r0"
      and req: "req = finish_request c r0"
    by auto
  from http_NewRequest_fields [OF r0] req True show ?thesis
    by (auto simp: finish_request_rest finish_request_other)
next
  case False
  with NewRequest_cases [OF assms] obtain u r0 buf
    where buf: "(case body of None \<Rightarrow> Inr [] | Some b \<Rightarrow> json_Encode L b) = Inr buf"
      and r0: "http_NewRequest L method (url_String L u) (Some buf) = Inr r0"
      and req: "req = finish_request c
                        (r0\<lparr>Header := Header_Set ''Content-Type'' mediaType (Header r0)\<rparr>)"
    by auto
  from http_NewRequest_fields [OF r0]
  have h0: "Header r0 = Map.empty" and b0: "Body r0 = (if buf = [] then None else Some buf)"
    by simp_all
  have "\<exists>ws. add_headers (headers c) (Header_Set ''Content-Type'' mediaType (Header r0))
               ''Content-Type'' = Some (mediaType # ws)"
    by (rule add_headers_first [where vs = "[]"]) (simp add: Header_Set_def canonical_keys)
  then have ct: "Header_Get ''Content-Type'' (Header req) = mediaType"
    using req by (auto simp: Header_Get_def canonical_keys finish_request_other)
  have "case body of
          None \<Rightarrow> Body req = None
        | Some b \<Rightarrow> \<exists>buf. json_Encode L b = Inr buf \<and>
                          Body req = (if buf = [] then None else Some buf)"
    using buf b0 req by (auto simp: finish_request_rest split: option.splits)
  with ct False show ?thesis
    by auto
qed

text \<open>
  The theorem at a POST request with a body and at a GET request.
\<close>

theorem request_body_and_content_type_witness:
  "(case NewRequest example_lib (example_client (answering 200 NoBytes))
           ''POST'' sendPath (Some ()) of
      Return (Inr req) \<Rightarrow>
        Body req = Some ''{}'' \<and> Header_Get ''Content-Type'' (Header req) = ''application/json''
    | _ \<Rightarrow> False) \<and>
   (case NewRequest example_lib (example_client (answering 200 NoBytes))
           ''GET'' sendPath (Some ()) of
      Return (Inr req) \<Rightarrow> Body req = None \<and> Header req ''Content-Type'' = None
    | _ \<Rightarrow> False)"
proof -
  let ?c = "example_client (answering 200 NoBytes)"
  have "\<exists>req. NewRequest example_lib ?c ''POST'' sendPath (Some ()) = Return (Inr req)"
    by (simp add: request_eval)
  then obtain req where post: "NewRequest example_lib ?c ''POST'' sendPath (Some ()) = Return (Inr req)" ..
  have "\<exists>req. NewRequest example_lib ?c ''GET'' sendPath (Some ()) = Return (Inr req)"
    by (simp add: request_eval)
  then obtain req' where get: "NewRequest example_lib ?c ''GET'' sendPath (Some ()) = Return (Inr req')" ..
  have none: "headers ?c = []"
    by (simp add: NewClient_def)
  from request_body_and_content_type [OF post]
  have "Body req = Some ''{}'' \<and> Header_Get ''Content-Type'' (Header req) = ''application/json''"
    by (simp add: mediaType_def)
  moreover
  from request_body_and_content_type [OF get] none
  have "Body req' = None \<and> Header req' ''Content-Type'' = None"
    by simp
  ultimately show ?thesis
    using post get by simp
qed

text \<open>
  Against claim C6 as stated: a POST request built with a nil body argument has no body
  and has the header \<^verbatim>\<open>Content-Type: application/json\<close>.
\<close>

theorem content_type_without_body:
  "(case NewRequest example_lib (example_client (answering 200 NoBytes))
           ''POST'' sendPath None of
      Return (Inr req) \<Rightarrow>
        Body req = None \<and> Header_Get ''Content-Type'' (Header req) = ''application/json''
    | _ \<Rightarrow> False)"
  by (simp add: request_eval header_eval)

subsection \<open>The base URL\<close>

lemmas path_defs =
  sendPath_def sendBasePath_def sendRawPath_def detailsPath_def deliveriesPath_def
  messagesBasePath_def

lemma resolvePath_absolute:
  "ref \<noteq> [] \<Longrightarrow> hd ref = CHR ''/'' \<Longrightarrow> resolvePath base ref = resolvePath [] ref"
  by (simp add: resolvePath_def)

lemma resolvePath_sendPath: "resolvePath base sendPath = sendPath"
proof -
  have "resolvePath base sendPath = resolvePath [] sendPath"
    by (rule resolvePath_absolute) (simp_all add: path_defs)
  also have "\<dots> = sendPath"
    by (simp add: path_defs resolvePath_def)
  finally show ?thesis .
qed

lemma resolvePath_sendRawPath: "resolvePath base sendRawPath = sendRawPath"
proof -
  have "resolvePath base sendRawPath = resolvePath [] sendRawPath"
    by (rule resolvePath_absolute) (simp_all add: path_defs)
  also have "\<dots> = sendRawPath"
    by (simp add: path_defs resolvePath_def)
  finally show ?thesis .
qed

lemma resolvePath_detailsPath: "resolvePath base detailsPath = detailsPath"
proof -
  have "resolvePath base detailsPath = resolvePath [] detailsPath"
    by (rule resolvePath_absolute) (simp_all add: path_defs)
  also have "\<dots> = detailsPath"
    by (simp add: path_defs resolvePath_def)
  finally show ?thesis .
qed

lemma resolvePath_deliveriesPath: "resolvePath base deliveriesPath = deliveriesPath"
proof -
  have "resolvePath base deliveriesPath = resolvePath [] deliveriesPath"
    by (rule resolvePath_absolute) (simp_all add: path_defs)
  also have "\<dots> = deliveriesPath"
    by (simp add: path_defs resolvePath_def)
  finally show ?thesis .
qed

lemma resolvePath_operation:
  "p \<in> {sendPath, sendRawPath, detailsPath, deliveriesPath} \<Longrightarrow> resolvePath base p = p"
  using resolvePath_sendPath resolvePath_sendRawPath resolvePath_detailsPath
    resolvePath_deliveriesPath
  by blast

lemma operation_path_not_empty:
  assumes "p \<in> {sendPath, sendRawPath, detailsPath, deliveriesPath}"
  shows "p \<noteq> []"
proof -
  have "sendPath \<noteq> []" "sendRawPath \<noteq> []" "detailsPath \<noteq> []" "deliveriesPath \<noteq> []"
    by (simp_all add: path_defs)
  with assms show ?thesis
    by auto
qed

lemma URL_Parse_operation_path:
  assumes "url_Parse L p = Inr (path_only p)"
    and "p \<in> {sendPath, sendRawPath, detailsPath, deliveriesPath}"
  shows "URL_Parse L (Some b) p =
     Return (Inr \<lparr>Scheme = Scheme b, Opaque = [], User = User b, Host = Host b, Path = p,
                  ForceQuery = False, RawQuery = [], Fragment = []\<rparr>)"
  using assms operation_path_not_empty [OF assms(2)]
  by (simp add: URL_Parse_def ResolveReference_def resolvePath_operation)

lemma URL_Parse_nil_base:
  assumes "url_Parse L urlStr = Inr ref" and "Scheme ref = []"
  shows "URL_Parse L None urlStr = Panic ''invalid memory address or nil pointer dereference''"
  using assms by (simp add: URL_Parse_def ResolveReference_def)

lemma NewRequest_nil_base:
  assumes "BaseURL c = None" and "url_Parse L urlStr = Inr ref" and "Scheme ref = []"
  shows "NewRequest L c method urlStr body
         = Panic ''invalid memory address or nil pointer dereference''"
  using assms by (simp add: NewRequest_def URL_Parse_nil_base)


text \<open>
  Claim C3. The URL of a request should be the base URL joined with the operation's
  path. The four paths begin with a slash, so resolving one against the base URL
  replaces the whole path of the base (\<open>URL_Parse_operation_path\<close> above, for any
  base). With the base URL \<^verbatim>\<open>https://example.com/postal\<close>, with or without a slash
  at its end, the request of \<^verbatim>\<open>Send\<close> goes to
  \<^verbatim>\<open>https://example.com/api/v1/send/message\<close>, not to
  \<^verbatim>\<open>https://example.com/postal/api/v1/send/message\<close>.
\<close>

theorem base_path_is_dropped:
  "(case NewRequest example_lib
           (NewClient example_lib (answering 200 NoBytes) ''https://example.com/postal'' ''key'')
           ''POST'' sendPath (Some ()) of
      Return (Inr req) \<Rightarrow> URL req = https_url ''example.com'' ''/api/v1/send/message''
    | _ \<Rightarrow> False) \<and>
   (case NewRequest example_lib
           (NewClient example_lib (answering 200 NoBytes) ''https://example.com/postal/'' ''key'')
           ''POST'' sendPath (Some ()) of
      Return (Inr req) \<Rightarrow> URL req = https_url ''example.com'' ''/api/v1/send/message''
    | _ \<Rightarrow> False)"
  by (simp add: request_eval)

text \<open>
  Claim C9. \<^verbatim>\<open>NewClient\<close> and \<^verbatim>\<open>SetBaseURL\<close> report no error for a base URL that
  \<^verbatim>\<open>url.Parse\<close> rejects: the client's base URL is nil, and each operation then panics
  in \<^verbatim>\<open>NewRequest\<close>, on the nil pointer dereference, instead of returning an error. The
  operation paths are taken to parse as references without a scheme, as
  \<^verbatim>\<open>url.Parse\<close> reads them.
\<close>

theorem unparseable_base_URL_crashes:
  assumes "url_Parse L bu = Inl err"
    and "\<forall>p \<in> {sendPath, sendRawPath, detailsPath, deliveriesPath}.
           \<exists>ref. url_Parse L p = Inr ref \<and> Scheme ref = []"
  shows "BaseURL (NewClient L d bu akey) = None \<and>
         BaseURL (SetBaseURL L bu c) = None \<and>
         Send L P (NewClient L d bu akey) rq
           = Panic ''invalid memory address or nil pointer dereference'' \<and>
         SendRAW L P (NewClient L d bu akey) rq
           = Panic ''invalid memory address or nil pointer dereference'' \<and>
         GetMessage L Q (NewClient L d bu akey) rq
           = Panic ''invalid memory address or nil pointer dereference'' \<and>
         GetDeliveries L (NewClient L d bu akey) rq
           = Panic ''invalid memory address or nil pointer dereference'' \<and>
         Send L P (SetBaseURL L bu c) rq
           = Panic ''invalid memory address or nil pointer dereference'' \<and>
         SendRAW L P (SetBaseURL L bu c) rq
           = Panic ''invalid memory address or nil pointer dereference'' \<and>
         GetMessage L Q (SetBaseURL L bu c) rq
           = Panic ''invalid memory address or nil pointer dereference'' \<and>
         GetDeliveries L (SetBaseURL L bu c) rq
           = Panic ''invalid memory address or nil pointer dereference''"
proof -
  have new: "BaseURL (NewClient L d bu akey) = None"
    using assms(1) by (simp add: NewClient_def)
  have set: "BaseURL (SetBaseURL L bu c) = None"
    using assms(1) by (simp add: SetBaseURL_def)
  have crash: "NewRequest L c' ''POST'' p body
               = Panic ''invalid memory address or nil pointer dereference''"
    if "BaseURL c' = None" and "p \<in> {sendPath, sendRawPath, detailsPath, deliveriesPath}"
    for c' p and body :: "'a option"
  proof -
    from assms(2) that(2) obtain ref where "url_Parse L p = Inr ref" and "Scheme ref = []"
      by blast
    with that(1) show ?thesis
      by (rule NewRequest_nil_base)
  qed
  show ?thesis
    by (simp add: new set Send_def SendRAW_def GetMessage_def GetDeliveries_def crash)
qed

text \<open>
  The theorem at the base URL \<^verbatim>\<open>:bad\<close>, which has no scheme before its colon.
\<close>

theorem unparseable_base_URL_crashes_witness:
  "BaseURL (NewClient example_lib (answering 200 NoBytes) '':bad'' ''key'') = None \<and>
   BaseURL (SetBaseURL example_lib '':bad'' (example_client (answering 200 NoBytes))) = None \<and>
   Send example_lib example_payload
     (NewClient example_lib (answering 200 NoBytes) '':bad'' ''key'') ()
     = Panic ''invalid memory address or nil pointer dereference'' \<and>
   GetDeliveries example_lib
     (SetBaseURL example_lib '':bad'' (example_client (answering 200 NoBytes))) ()
     = Panic ''invalid memory address or nil pointer dereference''"
proof -
  have bad: "url_Parse example_lib '':bad'' = Inl ''parse error''"
    by simp
  have paths: "\<forall>p \<in> {sendPath, sendRawPath, detailsPath, deliveriesPath}.
                 \<exists>ref. url_Parse example_lib p = Inr ref \<and> Scheme ref = []"
    by (simp add: path_defs)
  from unparseable_base_URL_crashes [OF bad paths, where d = "answering 200 NoBytes"
      and akey = "''key''" and c = "example_client (answering 200 NoBytes)"
      and P = example_payload and Q = example_payload and rq = "()"]
  show ?thesis
    by blast
qed

end
